theory Spec2Isabelle
  imports Main "HOL-Library.Word"
begin

unbundle bit_operations_syntax

section \<open>Go strings\<close>

text \<open>
  A Go string is a sequence of bytes; \<open>string\<close> (a list of 8-bit characters) is the
  same thing. \<open>strings.HasSuffix(s, suffix)\<close> is
  \<^verbatim>\<open>len(s) >= len(suffix) && s[len(s)-len(suffix):] == suffix\<close>.
\<close>

definition HasSuffix :: "string \<Rightarrow> string \<Rightarrow> bool" where
  "HasSuffix s suffix =
     (length suffix \<le> length s \<and> drop (length s - length suffix) s = suffix)"

text \<open>\<open>strings.Contains(s, substr)\<close>: \<open>substr\<close> occurs in \<open>s\<close> at some offset.\<close>

definition Contains :: "string \<Rightarrow> string \<Rightarrow> bool" where
  "Contains s substr =
     list_ex (\<lambda>i. take (length substr) (drop i s) = substr) [0..<Suc (length s)]"

text \<open>
  \<open>strings.Split(s, sep)\<close>, for the separators of this package (\<open>","\<close>, \<open>"."\<close>,
  \<open>":"\<close> and \<open>"-"\<close>, one byte each): the pieces between the separators, empty pieces
  included, so that a string without the separator comes back as its only piece.
\<close>

fun Split :: "string \<Rightarrow> char \<Rightarrow> string list" where
  "Split [] sep = [[]]"
| "Split (c # s) sep =
     (if c = sep then [] # Split s sep
      else (case Split s sep of [] \<Rightarrow> [[c]] | piece # pieces \<Rightarrow> (c # piece) # pieces))"

text \<open>
  The verb \<open>%d\<close> of \<open>fmt.Sprintf\<close> and \<open>strconv.Itoa\<close>: decimal digits, most
  significant first, with a minus sign for a negative number.
\<close>

definition digit :: "nat \<Rightarrow> char" where
  "digit d = ''0123456789'' ! d"

fun decimal :: "nat \<Rightarrow> string" where
  "decimal n = (if n < 10 then [digit n] else decimal (n div 10) @ [digit (n mod 10)])"

declare decimal.simps [simp del]

definition Itoa :: "int \<Rightarrow> string" where
  "Itoa i = (if i < 0 then CHR ''-'' # decimal (nat (- i)) else decimal (nat i))"

text \<open>
  \<open>strconv.Atoi\<close>: an optional sign, then decimal digits only. The result is the value
  and whether the error is nil; on a syntax error the value is 0, and a number outside
  int64 comes back as the nearest bound with an error.
\<close>

definition digitVal :: "char \<Rightarrow> nat option" where
  "digitVal c = (if c \<in> set ''0123456789'' then Some (of_char c - 48) else None)"

fun parseDigits :: "string \<Rightarrow> nat \<Rightarrow> nat option" where
  "parseDigits [] acc = Some acc"
| "parseDigits (c # s) acc =
     (case digitVal c of None \<Rightarrow> None | Some d \<Rightarrow> parseDigits s (acc * 10 + d))"

definition Atoi :: "string \<Rightarrow> int \<times> bool" where
  "Atoi s =
     (let neg = (s \<noteq> [] \<and> hd s = CHR ''-'');
          digits = (if s \<noteq> [] \<and> (hd s = CHR ''-'' \<or> hd s = CHR ''+'') then tl s else s)
      in if digits = [] then (0, False)
         else case parseDigits digits 0 of
                None \<Rightarrow> (0, False)
              | Some n \<Rightarrow>
                  (let v = (if neg then - int n else int n)
                   in if v > 2 ^ 63 - 1 then (2 ^ 63 - 1, False)
                      else if v < - (2 ^ 63) then (- (2 ^ 63), False)
                      else (v, True)))"

text \<open>
  What stops a Go program in the functions modelled here: a slice expression out of
  range, an index out of range, a nil pointer dereference.
\<close>

datatype panic = SliceBoundsOutOfRange | IndexOutOfRange | NilDereference

text \<open>The slice expression \<open>s[:hi]\<close>: it panics unless \<open>0 \<le> hi \<le> len(s)\<close>.\<close>

definition sliceTo :: "string \<Rightarrow> int \<Rightarrow> panic + string" where
  "sliceTo s hi =
     (if 0 \<le> hi \<and> hi \<le> int (length s) then Inr (take (nat hi) s)
      else Inl SliceBoundsOutOfRange)"

section \<open>Go integers\<close>

text \<open>
  The conversion \<open>int64(x)\<close> of an integer: the number between \<open>-2^63\<close> and
  \<open>2^63 - 1\<close> that has the low 64 bits of \<open>x\<close>.
\<close>

definition int64 :: "int \<Rightarrow> int" where
  "int64 x = sint (word_of_int x :: 64 word)"

section \<open>Package netUtil: ports\<close>

record Port =
  PortNo :: "16 word"
  Protocol :: string

text \<open>
  \<open>Ports\<close> is \<open>[]*Port\<close>. The model holds the ports themselves: \<open>NewPort\<close> never
  returns nil.
\<close>

type_synonym Ports = "Port list"

definition NewPort :: "16 word \<Rightarrow> string \<Rightarrow> Port" where
  "NewPort portNo proto = \<lparr>PortNo = portNo, Protocol = proto\<rparr>"

text \<open>\<open>(p *Port) String()\<close>: \<open>fmt.Sprintf("%d/%s", p.PortNo, p.Protocol)\<close>.\<close>

definition Port_String :: "Port \<Rightarrow> string" where
  "Port_String p = decimal (unat (PortNo p)) @ ''/'' @ Protocol p"

text \<open>
  The loop of \<open>Ports.String\<close> and of the first branch of \<open>Ports.Preview\<close>: \<open>i\<close> is the
  index of the next port, \<open>n\<close> is \<open>len(ps)\<close>, \<open>ret\<close> the string built so far.
\<close>

fun joinPorts :: "nat \<Rightarrow> nat \<Rightarrow> Ports \<Rightarrow> string \<Rightarrow> string" where
  "joinPorts i n [] ret = ret"
| "joinPorts i n (p # ps) ret =
     (let ret1 = ret @ Port_String p @ '', '';
          ret2 = (if i \<noteq> 0 \<and> i mod 10 = 0 \<and> i + 1 \<noteq> n then ret1 @ [CHR 0x0A] else ret1)
      in joinPorts (i + 1) n ps ret2)"

definition Ports_String :: "Ports \<Rightarrow> panic + string" where
  "Ports_String ps =
     (let ret = joinPorts 0 (length ps) ps []
      in sliceTo ret (int (length ret) - 2))"

text \<open>
  The loop of the second branch of \<open>Ports.Preview\<close>, over \<open>ps[:maxPerLine]\<close>: here the
  line break comes before the port, and \<open>n\<close> is still \<open>len(ps)\<close>.
\<close>

fun joinPreview :: "nat \<Rightarrow> nat \<Rightarrow> Ports \<Rightarrow> string \<Rightarrow> string" where
  "joinPreview i n [] ret = ret"
| "joinPreview i n (p # ps) ret =
     (let ret1 = (if i \<noteq> 0 \<and> i mod 10 = 0 \<and> i + 1 \<noteq> n then ret @ [CHR 0x0A] else ret);
          ret2 = ret1 @ Port_String p @ '', ''
      in joinPreview (i + 1) n ps ret2)"

definition Ports_Preview :: "Ports \<Rightarrow> panic + string" where
  "Ports_Preview ps =
     (let maxPerLine = 30
      in if length ps < maxPerLine then
           (let ret = joinPorts 0 (length ps) ps []
            in sliceTo ret (int (length ret) - 2))
         else
           (let ret = joinPreview 0 (length ps) (take maxPerLine ps) []
            in case sliceTo ret (int (length ret) - 2) of
                 Inl pn \<Rightarrow> Inl pn
               | Inr ret' \<Rightarrow> Inr (ret' @ ''...'')))"

section \<open>Package pScan: targets\<close>

text \<open>
  \<open>TargetStatus\<close> and \<open>NetworkLocation\<close> are Go ints with three named constants each
  (\<open>iota + 1\<close>); \<open>NoLocation\<close> is the zero value a fresh \<open>Target\<close> literal has for
  \<open>Location\<close>. Every constructor of the package sets \<open>Status\<close> to \<open>Unknown\<close>.
\<close>

datatype TargetStatus = Online | OfflineFiltered | Unknown

datatype NetworkLocation = NoLocation | Local | Global | UnknownLoc

text \<open>
  \<open>net.IP\<close> and \<open>net.HardwareAddr\<close> are byte slices; in a \<open>Target\<close> the nil slice is
  \<open>None\<close>. \<open>Rtts\<close> are durations in nanoseconds, the nil slice being the empty list.
\<close>

type_synonym IP = "8 word list"

type_synonym HardwareAddr = "8 word list"

record Target =
  HostName :: string
  Vendor :: string
  IPAddr :: "IP option"
  MACAddr :: "HardwareAddr option"
  InitialTarget :: string
  Status :: TargetStatus
  Location :: NetworkLocation
  Ports :: Ports
  Rtts :: "int list"

type_synonym Targets = "Target list"

text \<open>
  A Go error, as far as this package looks at it: whether its dynamic type is
  \<open>*net.OpError\<close> (the type assertion of \<open>scanPort\<close>) and its text \<open>err.Error()\<close>.
\<close>

record go_error =
  isOpError :: bool
  Error :: string

text \<open>The conversion \<open>string(b)\<close> of a byte slice: the same bytes, as a string.\<close>

definition string_of_bytes :: "8 word list \<Rightarrow> string" where
  "string_of_bytes b = map (\<lambda>w. char_of (unat w)) b"

subsection \<open>The world outside the package\<close>

text \<open>
  What \<open>ping.Statistics\<close> holds for this package, a network interface with its
  addresses (\<open>*net.IPAddr\<close>, \<open>*net.IPNet\<close> or another \<open>net.Addr\<close>, each with its IP and
  its \<open>String()\<close>), and an ARP client: the error of \<open>SetReadDeadline\<close> if any, and
  what \<open>Resolve\<close> answers.
\<close>

record Statistics =
  PacketsRecv :: int
  StatRtts :: "int list"

datatype Addr = AddrIPAddr IP string | AddrIPNet IP string | AddrOther string

fun Addr_String :: "Addr \<Rightarrow> string" where
  "Addr_String (AddrIPAddr ip s) = s"
| "Addr_String (AddrIPNet ip s) = s"
| "Addr_String (AddrOther s) = s"

record Interface =
  HardwareAddr :: "HardwareAddr option"
  Addrs :: "go_error + Addr list"

record arp_client =
  SetReadDeadline :: "go_error option"
  ArpResolve :: "IP option \<Rightarrow> go_error + HardwareAddr"

datatype dial_result = Connected | Failed go_error

text \<open>
  The standard library, the operating system, the network and the helper packages of
  the repository that are not among the sources (\<open>internal/helper\<close>,
  \<open>internal/helper/ulimit\<close>, \<open>netUtil/macLookup\<close>) are parameters of the model, one
  field per call:
  \<^item> \<open>ValidateIPOrRange\<close> is \<open>helper.ValidateIPOrRange\<close>;
  \<^item> \<open>GetUlimit\<close> is \<open>ulimit.GetUlimit\<close>: an error or the limit, as a number. Modelled
    from the spec: the collaborator is \<open>resolveDescriptorLimit() -> int, error\<close>, and a Go
    int is between \<open>-2^63\<close> and \<open>2^63 - 1\<close>;
  \<^item> \<open>ParseCIDR\<close> is \<open>net.ParseCIDR\<close> on a host token, for IPv4 blocks: the address
    \<open>a.b.c.d\<close> as a 32-bit number and the prefix length \<open>n\<close> of a token \<open>a.b.c.d/n\<close>,
    or \<open>None\<close> for the error;
  \<^item> \<open>cidrContains s ip\<close> is \<open>net.ParseCIDR(s)\<close> followed by \<open>ipNet.Contains(ip)\<close>,
    \<open>None\<close> when the parse fails (interface addresses, of either family);
  \<^item> \<open>NewPinger addr\<close> is the error of \<open>ping.NewPinger\<close> if any, and
    \<open>PingerRun addr count timeout privileged\<close> the statistics after \<open>pinger.Run()\<close>;
  \<^item> \<open>DialTimeout addr k\<close> is what the \<open>k\<close>-th call of
    \<open>net.DialTimeout("tcp", addr, ...)\<close> returns;
  \<^item> the others carry the name of the function they stand for.
\<close>

record env =
  ValidateIPOrRange :: "string \<Rightarrow> bool"
  GetUlimit :: "go_error + int"
  GOOS :: string
  LookupAddr :: "string \<Rightarrow> go_error + string list"
  LookupIP :: "string \<Rightarrow> go_error + IP list"
  ParseIP :: "string \<Rightarrow> IP option"
  ParseCIDR :: "string \<Rightarrow> (32 word \<times> nat) option"
  IP_String :: "IP \<Rightarrow> string"
  IP_Equal :: "IP option \<Rightarrow> IP option \<Rightarrow> bool"
  cidrContains :: "string \<Rightarrow> IP option \<Rightarrow> bool option"
  NewPinger :: "string \<Rightarrow> go_error option"
  PingerRun :: "string \<Rightarrow> nat \<Rightarrow> nat \<Rightarrow> bool \<Rightarrow> Statistics"
  Interfaces :: "go_error + Interface list"
  arpSearch :: "string \<Rightarrow> string"
  ParseMAC :: "string \<Rightarrow> go_error + HardwareAddr"
  HardwareAddr_String :: "HardwareAddr \<Rightarrow> string"
  arpDial :: "Interface \<Rightarrow> go_error + arp_client"
  LookupVendor :: "HardwareAddr \<Rightarrow> go_error + string"
  DialTimeout :: "string \<Rightarrow> nat \<Rightarrow> dial_result"

text \<open>\<open>ip.String()\<close> of a \<open>net.IP\<close>; the nil slice prints as \<open><nil>\<close>.\<close>

definition ipString :: "env \<Rightarrow> IP option \<Rightarrow> string" where
  "ipString e ip = (case ip of None \<Rightarrow> ''<nil>'' | Some b \<Rightarrow> IP_String e b)"

subsection \<open>Resolve\<close>

text \<open>
  \<open>(t *Target) Resolve()\<close>. Indexing \<open>hostNames[0]\<close> and \<open>ips[0]\<close> panics on an empty
  slice. In the hostname branch the reverse lookup is called with \<open>string(t.IPAddr)\<close>.
\<close>

definition Resolve :: "env \<Rightarrow> Target \<Rightarrow> panic + Target" where
  "Resolve e t =
     (if ValidateIPOrRange e (InitialTarget t) then
        (case LookupAddr e (InitialTarget t) of
           Inl err \<Rightarrow>
             Inr (t\<lparr>HostName := ''N/A'', IPAddr := ParseIP e (InitialTarget t)\<rparr>)
         | Inr hostNames \<Rightarrow>
             (case hostNames of
                [] \<Rightarrow> Inl IndexOutOfRange
              | h # _ \<Rightarrow> Inr (t\<lparr>HostName := h, IPAddr := ParseIP e (InitialTarget t)\<rparr>)))
      else
        (case LookupIP e (InitialTarget t) of
           Inr ips \<Rightarrow>
             (case ips of
                [] \<Rightarrow> Inl IndexOutOfRange
              | ip # _ \<Rightarrow>
                  (case LookupAddr e (string_of_bytes ip) of
                     Inr hostNames \<Rightarrow>
                       (case hostNames of
                          [] \<Rightarrow> Inl IndexOutOfRange
                        | h # _ \<Rightarrow> Inr (t\<lparr>IPAddr := Some ip, HostName := h\<rparr>))
                   | Inl err \<Rightarrow>
                       Inr (t\<lparr>IPAddr := Some ip, HostName := InitialTarget t\<rparr>)))
         | Inl err \<Rightarrow> Inr (t\<lparr>IPAddr := None, Status := OfflineFiltered\<rparr>)))"

subsection \<open>Liveness and link-layer probing\<close>

text \<open>
  \<open>(t *Target) Ping(count, privileged)\<close>: the Target with its \<open>Rtts\<close> set, the
  statistics (\<open>None\<close> for the nil pointer) and the error.
\<close>

definition Ping :: "env \<Rightarrow> Target \<Rightarrow> nat \<Rightarrow> bool \<Rightarrow> Target \<times> Statistics option \<times> go_error option" where
  "Ping e t count privileged =
     (case NewPinger e (ipString e (IPAddr t)) of
        Some err \<Rightarrow> (t\<lparr>Rtts := []\<rparr>, None, Some err)
      | None \<Rightarrow>
          (let stats = PingerRun e (ipString e (IPAddr t)) count 3000
                         (privileged \<or> GOOS e = ''windows'')
           in (t\<lparr>Rtts := StatRtts stats\<rparr>, Some stats, None)))"

text \<open>
  \<open>(t *Target) IsHost()\<close>: the two loops over the interfaces and their addresses;
  \<open>Some\<close> is the \<open>return true, nil\<close> from inside them.
\<close>

fun hostAddrs :: "env \<Rightarrow> Target \<Rightarrow> Interface \<Rightarrow> Addr list \<Rightarrow> Target option" where
  "hostAddrs e t iface [] = None"
| "hostAddrs e t iface (addr # addrs) =
     (case addr of
        AddrIPAddr ip s \<Rightarrow>
          if IP_Equal e (IPAddr t) (Some ip)
          then Some (t\<lparr>Location := Local, MACAddr := HardwareAddr iface\<rparr>)
          else hostAddrs e t iface addrs
      | AddrIPNet ip s \<Rightarrow>
          (let ip' = ParseIP e (case Split (IP_String e ip) (CHR '':'') of
                                  [] \<Rightarrow> [] | piece # _ \<Rightarrow> piece)
           in if IP_Equal e (IPAddr t) ip'
              then Some (t\<lparr>Location := Local, MACAddr := HardwareAddr iface\<rparr>)
              else hostAddrs e t iface addrs)
      | AddrOther s \<Rightarrow> hostAddrs e t iface addrs)"

fun hostInterfaces :: "env \<Rightarrow> Target \<Rightarrow> Interface list \<Rightarrow> Target option" where
  "hostInterfaces e t [] = None"
| "hostInterfaces e t (iface # ifaces) =
     (case Addrs iface of
        Inl err \<Rightarrow> hostInterfaces e t ifaces
      | Inr infAddresses \<Rightarrow>
          (case hostAddrs e t iface infAddresses of
             Some t' \<Rightarrow> Some t'
           | None \<Rightarrow> hostInterfaces e t ifaces))"

definition IsHost :: "env \<Rightarrow> Target \<Rightarrow> Target \<times> bool \<times> go_error option" where
  "IsHost e t =
     (case Interfaces e of
        Inl err \<Rightarrow> (t, False, Some err)
      | Inr interfaces \<Rightarrow>
          (case hostInterfaces e t interfaces of
             Some t' \<Rightarrow> (t', True, None)
           | None \<Rightarrow> (t, False, None)))"

text \<open>
  \<open>(t *Target) QueryMac()\<close>. \<open>arpRequest\<close> is the body of
  \<open>if ipNet.Contains(t.IPAddr)\<close>, every path of which returns; \<open>arpAddrs\<close> and
  \<open>arpInterfaces\<close> are the two loops of the fallback, \<open>Some\<close> being a return from inside.
\<close>

definition arpRequest :: "env \<Rightarrow> Target \<Rightarrow> Interface \<Rightarrow> Target" where
  "arpRequest e t iface =
     (let t1 = t\<lparr>Location := Local\<rparr>
      in case arpDial e iface of
           Inr arpCli \<Rightarrow>
             (case SetReadDeadline arpCli of
                Some err \<Rightarrow> t1\<lparr>MACAddr := None\<rparr>
              | None \<Rightarrow>
                  (case ArpResolve arpCli (IPAddr t1) of
                     Inl err \<Rightarrow> t1\<lparr>MACAddr := None\<rparr>
                   | Inr hwAddr \<Rightarrow>
                       if HardwareAddr_String e hwAddr = ''00:00:00:00:00:00''
                       then t1\<lparr>MACAddr := None\<rparr>
                       else t1\<lparr>MACAddr := Some hwAddr, Status := Online\<rparr>))
         | Inl err \<Rightarrow> t1\<lparr>MACAddr := None\<rparr>)"

fun arpAddrs :: "env \<Rightarrow> Target \<Rightarrow> Interface \<Rightarrow> Addr list \<Rightarrow> Target option" where
  "arpAddrs e t iface [] = None"
| "arpAddrs e t iface (addr # addrs) =
     (case cidrContains e (Addr_String addr) (IPAddr t) of
        Some True \<Rightarrow> Some (arpRequest e t iface)
      | _ \<Rightarrow> arpAddrs e t iface addrs)"

fun arpInterfaces :: "env \<Rightarrow> Target \<Rightarrow> Interface list \<Rightarrow> Target option" where
  "arpInterfaces e t [] = None"
| "arpInterfaces e t (iface # ifaces) =
     (case Addrs iface of
        Inl err \<Rightarrow> arpInterfaces e t ifaces
      | Inr infAddresses \<Rightarrow>
          (case arpAddrs e t iface infAddresses of
             Some t' \<Rightarrow> Some t'
           | None \<Rightarrow> arpInterfaces e t ifaces))"

definition QueryMac :: "env \<Rightarrow> Target \<Rightarrow> Target" where
  "QueryMac e t =
     (case IsHost e t of
        (t1, b, err) \<Rightarrow>
          if b \<and> err = None then t1
          else
            (case (case ParseMAC e (arpSearch e (ipString e (IPAddr t1))) of
                     Inr macAddr \<Rightarrow>
                       if HardwareAddr_String e macAddr \<noteq> ''00:00:00:00:00:00''
                       then Some macAddr else None
                   | Inl err \<Rightarrow> None) of
               Some macAddr \<Rightarrow> t1\<lparr>Location := Local, MACAddr := Some macAddr\<rparr>
             | None \<Rightarrow>
                 (case Interfaces e of
                    Inl err \<Rightarrow> t1\<lparr>Location := UnknownLoc, MACAddr := None\<rparr>
                  | Inr interfaces \<Rightarrow>
                      (case arpInterfaces e t1 interfaces of
                         Some t' \<Rightarrow> t'
                       | None \<Rightarrow> t1\<lparr>Location := Global, MACAddr := None\<rparr>))))"

text \<open>\<open>(t *Target) LookUpVendor()\<close>.\<close>

definition LookUpVendor :: "env \<Rightarrow> Target \<Rightarrow> Target" where
  "LookUpVendor e t =
     (case MACAddr t of
        Some mac \<Rightarrow>
          (case LookupVendor e mac of
             Inl err \<Rightarrow> t\<lparr>Vendor := ''N/A''\<rparr>
           | Inr company \<Rightarrow> t\<lparr>Vendor := company\<rparr>)
      | None \<Rightarrow> t\<lparr>Vendor := ''N/A''\<rparr>)"

section \<open>The Concurrency Governor and the traces of concurrent units\<close>

text \<open>
  \<open>semaphore.Weighted\<close> (golang.org/x/sync), as this package uses it: a capacity and the
  weight held. \<open>Acquire(context.TODO(), n)\<close> returns once \<open>n\<close> more fit under the
  capacity and waits until then; \<open>Release(n)\<close> gives \<open>n\<close> back.
\<close>

record Weighted =
  capacity :: int
  cur :: int

definition NewWeighted :: "int \<Rightarrow> Weighted" where
  "NewWeighted n = \<lparr>capacity = n, cur = 0\<rparr>"

text \<open>
  Modelled from the spec: the file declaring \<open>PortResults\<close>, \<open>NewPortResults\<close>,
  \<open>ScanResult\<close>, \<open>NewScanResult\<close> and \<open>MultiScanResult\<close> is not among the sources.
  Section 3 of the specification gives the types: PortResults is three sequences of
  Port (Open, Closed, Filtered), empty when new; a ScanResult is a Target reference and
  the merged PortResults (its two timestamps are left out of the model); a
  MultiScanResult is the sequences Resolved and Unresolved.
\<close>

record PortResults =
  Open :: Ports
  Closed :: Ports
  Filtered :: Ports

definition NewPortResults :: PortResults where
  "NewPortResults = \<lparr>Open = [], Closed = [], Filtered = []\<rparr>"

record ScanResult =
  ResultTarget :: Target
  ResultPorts :: PortResults

definition NewScanResult :: "Target \<Rightarrow> ScanResult" where
  "NewScanResult t = \<lparr>ResultTarget = t, ResultPorts = NewPortResults\<rparr>"

record MultiScanResult =
  Resolved :: "ScanResult list"
  Unresolved :: "Target list"

text \<open>
  What a concurrent unit does to the world outside its Target, in program order: the
  Governor calls, the methods \<open>NewTarget\<close> invokes on the Target, the send of a Target
  on the results channel, a connect attempt (port, timeout in ms), a pause (ms), the
  resubmission \<open>go t.scanPort(p, ch, lock)\<close>, the send of a PortResults on \<open>ch\<close>, and the
  deferred \<open>conn.Close()\<close>.
\<close>

datatype target_method = MResolve | MPing | MQueryMac | MLookUpVendor

datatype event =
    Acquire int
  | Release int
  | Invoke target_method
  | SendTarget Target
  | Dial Port nat
  | Sleep nat
  | Go Port
  | Send PortResults
  | Close

text \<open>
  The Governor along a trace. The model runs the concurrent units one after the other,
  in the order they were started (one of the schedules the Go runtime may choose); then
  an \<open>Acquire\<close> that does not fit waits for ever, which is \<open>None\<close>. No trace of this
  package releases more than it holds.
\<close>

fun replay :: "Weighted \<Rightarrow> event list \<Rightarrow> Weighted option" where
  "replay lock [] = Some lock"
| "replay lock (Acquire n # tr) =
     (if capacity lock - cur lock \<ge> n then replay (lock\<lparr>cur := cur lock + n\<rparr>) tr else None)"
| "replay lock (Release n # tr) = replay (lock\<lparr>cur := cur lock - n\<rparr>) tr"
| "replay lock (_ # tr) = replay lock tr"

section \<open>Target construction\<close>

text \<open>
  \<open>NewTarget\<close>: the methods it invokes, and the Target or the panic. When \<open>Ping\<close> fails
  it returns a nil \<open>*ping.Statistics\<close>, and \<open>stats.PacketsRecv\<close> dereferences it.
\<close>

definition NewTarget :: "env \<Rightarrow> string \<Rightarrow> Ports \<Rightarrow> bool \<Rightarrow> event list \<times> (panic + Target)" where
  "NewTarget e t ports privileged =
     (let h = \<lparr>HostName = [], Vendor = [], IPAddr = None, MACAddr = None,
                InitialTarget = t, Status = Unknown, Location = NoLocation,
                Ports = ports, Rtts = []\<rparr>
      in case Resolve e h of
           Inl pn \<Rightarrow> ([Invoke MResolve], Inl pn)
         | Inr h1 \<Rightarrow>
             if IPAddr h1 \<noteq> None then
               (case Ping e h1 3 privileged of
                  (h2, stats, err) \<Rightarrow>
                    (case stats of
                       None \<Rightarrow> ([Invoke MResolve, Invoke MPing], Inl NilDereference)
                     | Some st \<Rightarrow>
                         (let h3 = (if PacketsRecv st > 0 then h2\<lparr>Status := Online\<rparr> else h2);
                              h4 = QueryMac e h3;
                              h5 = LookUpVendor e h4
                          in ([Invoke MResolve, Invoke MPing, Invoke MQueryMac,
                               Invoke MLookUpVendor], Inr h5))))
             else ([Invoke MResolve], Inr (h1\<lparr>MACAddr := None, Location := UnknownLoc\<rparr>)))"

text \<open>
  \<open>AsyncNewTarget\<close>: lines 143 to 155 are the body of \<open>NewTarget\<close> word for word,
  between \<open>scanLock.Acquire(context.TODO(), 4)\<close> and \<open>scanLock.Release(3)\<close>, and the
  Target goes to the channel.
\<close>

definition AsyncNewTarget :: "env \<Rightarrow> string \<Rightarrow> Ports \<Rightarrow> bool \<Rightarrow> event list \<times> (panic + Target)" where
  "AsyncNewTarget e t ports privileged =
     (case NewTarget e t ports privileged of
        (tr, Inl pn) \<Rightarrow> (Acquire 4 # tr, Inl pn)
      | (tr, Inr h) \<Rightarrow> (Acquire 4 # tr @ [Release 3, SendTarget h], Inr h))"

section \<open>The Address Expander (ParseHostString)\<close>

text \<open>
  An IPv4 block, as \<open>net.ParseCIDR\<close> builds it from \<open>a.b.c.d/n\<close>: the mask
  \<open>net.CIDRMask(n, 32)\<close> has its \<open>n\<close> leading bits set, the network number is the
  masked address, and \<open>ipNet.Contains(ip)\<close> compares the two under the mask.
  \<open>ip.String()\<close> of a four-byte address is dotted decimal.
\<close>

definition CIDRMask :: "nat \<Rightarrow> 32 word" where
  "CIDRMask ones = NOT (mask (32 - ones))"

definition IPNet_Contains :: "32 word \<Rightarrow> 32 word \<Rightarrow> 32 word \<Rightarrow> bool" where
  "IPNet_Contains netIP m ip = (netIP AND m = ip AND m)"

definition IPv4_String :: "32 word \<Rightarrow> string" where
  "IPv4_String ip =
     decimal (unat (drop_bit 24 ip)) @ ''.'' @ decimal (unat (drop_bit 16 ip AND 255)) @ ''.'' @
     decimal (unat (drop_bit 8 ip AND 255)) @ ''.'' @ decimal (unat (ip AND 255))"

text \<open>
  Modelled from the spec: \<open>helper.IncIp\<close> is not among the sources. Section 4.2 has the
  block expanded "by incrementing from the masked network address": the next address
  is the address plus one. The function changes the four bytes in place, so past
  255.255.255.255 comes 0.0.0.0.
\<close>

definition IncIp :: "32 word \<Rightarrow> 32 word" where
  "IncIp ip = ip + 1"

text \<open>
  The loop \<^verbatim>\<open>for ip := ip.Mask(ipNet.Mask); ipNet.Contains(ip); helper.IncIp(ip)\<close>, which
  starts a unit for \<open>ip.String()\<close> at every turn. It has no other exit than the test, so
  it is a partial function: \<open>None\<close> is the loop that never ends.
\<close>

partial_function (option) cidrLoop :: "32 word \<Rightarrow> 32 word \<Rightarrow> 32 word \<Rightarrow> string list \<Rightarrow> string list option" where
  "cidrLoop netIP m ip spawned =
     (if IPNet_Contains netIP m ip
      then cidrLoop netIP m (IncIp ip) (spawned @ [IPv4_String ip])
      else Some spawned)"

text \<open>
  Modelled from the spec: \<open>helper.StrRangeToArray\<close> is not among the sources. Section
  4.2: an octet with a dash stands for "the inclusive integer range denoted by the
  dash". The spec says nothing of an octet that is not two numbers around one dash;
  the model gives it no candidates.
\<close>

definition StrRangeToArray :: "string \<Rightarrow> int list" where
  "StrRangeToArray s =
     (case Split s (CHR ''-'') of
        [lo, hi] \<Rightarrow> [fst (Atoi lo)..fst (Atoi hi)]
      | _ \<Rightarrow> [])"

text \<open>
  The loop that fills \<open>var octets [4][]int\<close> from the parts of the token: \<open>octets[i]\<close>
  with \<open>i \<ge> 4\<close> is an index out of range.
\<close>

fun fillOctets :: "nat \<Rightarrow> string list \<Rightarrow> int list list \<Rightarrow> panic + int list list" where
  "fillOctets i [] octets = Inr octets"
| "fillOctets i (addrPart # addrParts) octets =
     (if i \<ge> length octets then Inl IndexOutOfRange
      else fillOctets (i + 1) addrParts
             (octets[i := octets ! i @
                (if Contains addrPart ''-'' then StrRangeToArray addrPart
                 else [fst (Atoi addrPart)])]))"

text \<open>\<open>octetsToTargets\<close>: four nested loops, the first octet outermost.\<close>

definition octetsToTargets :: "int list list \<Rightarrow> string list" where
  "octetsToTargets octets =
     concat (map (\<lambda>oc0.
       concat (map (\<lambda>oc1.
         concat (map (\<lambda>oc2.
           map (\<lambda>oc3. Itoa oc0 @ ''.'' @ Itoa oc1 @ ''.'' @ Itoa oc2 @ ''.'' @ Itoa oc3)
             (octets ! 3))
           (octets ! 2)))
         (octets ! 1)))
       (octets ! 0))"

text \<open>
  One turn of the loop over the host tokens: the addresses for which it starts
  \<open>AsyncNewTarget\<close>, in the order it starts them.
\<close>

definition expandHostArg :: "env \<Rightarrow> string \<Rightarrow> (panic + string list) option" where
  "expandHostArg e hostArg =
     (case ParseCIDR e hostArg of
        Some (ip, ones) \<Rightarrow>
          (let m = CIDRMask ones; netIP = ip AND m
           in map_option Inr (cidrLoop netIP m (ip AND m) []))
      | None \<Rightarrow>
          if ValidateIPOrRange e hostArg then
            if Contains hostArg ''-'' then
              (case fillOctets 0 (Split hostArg (CHR ''.'')) (replicate 4 []) of
                 Inl pn \<Rightarrow> Some (Inl pn)
               | Inr octets \<Rightarrow> Some (Inr (octetsToTargets octets)))
            else Some (Inr [hostArg])
          else Some (Inr [hostArg]))"

fun spawnHosts :: "env \<Rightarrow> string list \<Rightarrow> string list \<Rightarrow> (panic + string list) option" where
  "spawnHosts e [] spawned = Some (Inr spawned)"
| "spawnHosts e (hostArg # hosts) spawned =
     (case expandHostArg e hostArg of
        None \<Rightarrow> None
      | Some (Inl pn) \<Rightarrow> Some (Inl pn)
      | Some (Inr ts) \<Rightarrow> spawnHosts e hosts (spawned @ ts))"

text \<open>
  The units started by \<open>ParseHostString\<close>, run one after the other, and the loop that
  receives \<open>hostCount\<close> Targets: \<open>None\<close> when a unit waits for the Governor for ever.
\<close>

fun collectTargets :: "env \<Rightarrow> Weighted \<Rightarrow> string list \<Rightarrow> Ports \<Rightarrow> bool \<Rightarrow> Targets \<Rightarrow> (panic + Targets) option" where
  "collectTargets e lock [] ports privileged tgtHosts = Some (Inr tgtHosts)"
| "collectTargets e lock (t # ts) ports privileged tgtHosts =
     (case AsyncNewTarget e t ports privileged of
        (tr, res) \<Rightarrow>
          (case replay lock tr of
             None \<Rightarrow> None
           | Some lock' \<Rightarrow>
               (case res of
                  Inl pn \<Rightarrow> Some (Inl pn)
                | Inr h \<Rightarrow> collectTargets e lock' ts ports privileged (tgtHosts @ [h]))))"

text \<open>
  \<open>ParseHostString\<close>: the Governor it creates, and its result: \<open>None\<close> when it never
  returns, a panic, or the Targets.
\<close>

definition ParseHostString :: "env \<Rightarrow> string \<Rightarrow> Ports \<Rightarrow> bool \<Rightarrow> Weighted \<times> (panic + Targets) option" where
  "ParseHostString e hostArgs ports privileged =
     (let limit = (case GetUlimit e of Inl err \<Rightarrow> 1024 | Inr l \<Rightarrow> int64 l);
          lock = NewWeighted limit;
          hosts = Split hostArgs (CHR '','')
      in (lock,
          case spawnHosts e hosts [] of
            None \<Rightarrow> None
          | Some (Inl pn) \<Rightarrow> Some (Inl pn)
          | Some (Inr spawned) \<Rightarrow> collectTargets e lock spawned ports privileged []))"

section \<open>The port scan pipeline (fcScan.go)\<close>

text \<open>The refusal test, written twice in \<open>scanPort\<close> (lines 118-119 and 125-126).\<close>

definition refused :: "string \<Rightarrow> bool" where
  "refused msg =
     (HasSuffix msg ''No connection could be made because the target machine actively refused it.''
      \<or> HasSuffix msg ''connect: connection refused'')"

text \<open>
  \<open>(t *Target) scanPort(p, ch, lock)\<close>, one run of the function body: from the Target as
  the probe finds it, the port and what \<open>net.DialTimeout\<close> returned, to the Target as the
  probe leaves it and the trace of its effects. \<open>Status\<close> is read and written without
  synchronisation in the source; the model takes the reads and the write of one probe
  as one step.
\<close>

definition scanPort :: "Target \<Rightarrow> Port \<Rightarrow> dial_result \<Rightarrow> Target \<times> event list" where
  "scanPort t p d =
     (let res = NewPortResults;
          milli = 3000;
          timeOut = milli
      in case d of
           Connected \<Rightarrow>
             (t\<lparr>Status := Online\<rparr>,
              [Acquire 1, Dial p timeOut, Send (res\<lparr>Open := Open res @ [p]\<rparr>), Release 1, Close])
         | Failed err \<Rightarrow>
             if isOpError err then
               let t1 =
                     (if Status t = Unknown \<or> Status t = OfflineFiltered then
                        if refused (Error err) then t\<lparr>Status := Online\<rparr>
                        else if HasSuffix (Error err) ''i/o timeout'' \<and> Status t = Unknown
                             then t\<lparr>Status := OfflineFiltered\<rparr>
                             else t
                      else t);
                   res1 = (if refused (Error err)
                           then res\<lparr>Closed := Closed res @ [p]\<rparr> else res);
                   res2 = (if HasSuffix (Error err) ''i/o timeout''
                           then res1\<lparr>Filtered := Filtered res1 @ [p]\<rparr> else res1)
               in if HasSuffix (Error err) ''too many open files''
                  then (t1, [Acquire 1, Dial p timeOut, Sleep timeOut, Go p, Release 1])
                  else (t1, [Acquire 1, Dial p timeOut, Release 1, Send res2])
             else (t, [Acquire 1, Dial p timeOut, Release 1, Send res]))"

text \<open>
  The PortResults a trace delivers on the channel, the probes it resubmits, and
  \<open>precedes a b tr\<close>: some \<open>b\<close> comes after the first \<open>a\<close> of the trace.
\<close>

definition sent :: "event list \<Rightarrow> PortResults list" where
  "sent tr = concat (map (\<lambda>ev. case ev of Send r \<Rightarrow> [r] | _ \<Rightarrow> []) tr)"

definition resubmitted :: "event list \<Rightarrow> Port list" where
  "resubmitted tr = concat (map (\<lambda>ev. case ev of Go q \<Rightarrow> [q] | _ \<Rightarrow> []) tr)"

definition precedes :: "event \<Rightarrow> event \<Rightarrow> event list \<Rightarrow> bool" where
  "precedes a b tr = (b \<in> set (tl (dropWhile (\<lambda>ev. ev \<noteq> a) tr)))"

text \<open>
  The address \<open>scanPort\<close> dials, and a port probe with its resubmissions: the \<open>k\<close>-th
  connect attempt, then, if the run resubmitted the probe, the run of the new unit.
  Nothing bounds the chain, so it is a partial function: \<open>None\<close> is the probe that never
  delivers (or waits for the Governor for ever).
\<close>

definition dialAddr :: "env \<Rightarrow> Target \<Rightarrow> Port \<Rightarrow> string" where
  "dialAddr e t p = ipString e (IPAddr t) @ '':'' @ Itoa (uint (PortNo p))"

partial_function (option) runProbe :: "env \<Rightarrow> Weighted \<Rightarrow> Target \<Rightarrow> Port \<Rightarrow> nat \<Rightarrow> event list \<Rightarrow> (Weighted \<times> Target \<times> event list) option" where
  "runProbe e lock t p k done =
     (case scanPort t p (DialTimeout e (dialAddr e t p) k) of
        (t', tr) \<Rightarrow>
          (case replay lock tr of
             None \<Rightarrow> None
           | Some lock' \<Rightarrow>
               (case resubmitted tr of
                  [] \<Rightarrow> Some (lock', t', done @ tr)
                | q # _ \<Rightarrow> runProbe e lock' t' q (Suc k) (done @ tr))))"

text \<open>
  The two loops of \<open>scan\<close> and of \<open>Target.Scan\<close>: a probe per port, and the merge of
  what the probes deliver.
\<close>

definition mergeResults :: "PortResults \<Rightarrow> PortResults \<Rightarrow> PortResults" where
  "mergeResults r pI =
     r\<lparr>Open := Open r @ Open pI, Closed := Closed r @ Closed pI,
       Filtered := Filtered r @ Filtered pI\<rparr>"

fun probePorts :: "env \<Rightarrow> Weighted \<Rightarrow> Target \<Rightarrow> Ports \<Rightarrow> PortResults \<Rightarrow> (Weighted \<times> Target \<times> PortResults) option" where
  "probePorts e lock t [] r = Some (lock, t, r)"
| "probePorts e lock t (p # ps) r =
     (case runProbe e lock t p 0 [] of
        None \<Rightarrow> None
      | Some (lock', t', tr) \<Rightarrow> probePorts e lock' t' ps (foldl mergeResults r (sent tr)))"

definition scan :: "env \<Rightarrow> Weighted \<Rightarrow> Target \<Rightarrow> (Weighted \<times> ScanResult) option" where
  "scan e lock t =
     (let r = NewScanResult t
      in case probePorts e lock t (Ports t) (ResultPorts r) of
           None \<Rightarrow> None
         | Some (lock', t', ports) \<Rightarrow> Some (lock', r\<lparr>ResultTarget := t', ResultPorts := ports\<rparr>))"

text \<open>
  \<open>(t *Target) Scan()\<close>: the Governor it creates, and the ScanResult, \<open>None\<close> when it
  never returns.
\<close>

definition Target_Scan :: "env \<Rightarrow> Target \<Rightarrow> Weighted \<times> ScanResult option" where
  "Target_Scan e t =
     (let limit = (case GetUlimit e of Inl err \<Rightarrow> 1024 | Inr l \<Rightarrow> int64 l);
          lock = NewWeighted limit
      in (lock, map_option snd (scan e lock t)))"

text \<open>
  \<open>(t Targets) Scan()\<close>: the first loop sorts the Targets into \<open>Unresolved\<close> and the
  ones it starts \<open>scan\<close> for; the second receives one ScanResult for each of these.
\<close>

fun dispatchTargets :: "Targets \<Rightarrow> Targets \<times> Targets \<Rightarrow> Targets \<times> Targets" where
  "dispatchTargets [] (unresolved, started) = (unresolved, started)"
| "dispatchTargets (t # ts) (unresolved, started) =
     (if IPAddr t = None then dispatchTargets ts (unresolved @ [t], started)
      else dispatchTargets ts (unresolved, started @ [t]))"

fun collectScans :: "env \<Rightarrow> Weighted \<Rightarrow> Targets \<Rightarrow> ScanResult list \<Rightarrow> ScanResult list option" where
  "collectScans e lock [] resolved = Some resolved"
| "collectScans e lock (t # ts) resolved =
     (case scan e lock t of
        None \<Rightarrow> None
      | Some (lock', r) \<Rightarrow> collectScans e lock' ts (resolved @ [r]))"

definition Targets_Scan :: "env \<Rightarrow> Targets \<Rightarrow> Weighted \<times> MultiScanResult option" where
  "Targets_Scan e ts =
     (let limit = (case GetUlimit e of Inl err \<Rightarrow> 1024 | Inr l \<Rightarrow> int64 l);
          lock = NewWeighted limit
      in case dispatchTargets ts ([], []) of
           (unresolved, started) \<Rightarrow>
             (lock,
              case collectScans e lock started [] of
                None \<Rightarrow> None
              | Some resolved \<Rightarrow> Some \<lparr>Resolved = resolved, Unresolved = unresolved\<rparr>))"

section \<open>Concrete inputs\<close>

text \<open>
  A port, a Target, some errors with the texts the Go runtime gives them, and a world in
  which nothing resolves and the first two connect attempts run out of descriptors.
\<close>

definition tcp80 :: Port where
  "tcp80 = NewPort 80 ''tcp''"

definition host7 :: Target where
  "host7 = \<lparr>HostName = ''host7.example.org.'', Vendor = ''N/A'', IPAddr = Some [10, 0, 0, 7],
             MACAddr = None, InitialTarget = ''10.0.0.7'', Status = Unknown,
             Location = Global, Ports = [tcp80], Rtts = []\<rparr>"

definition refusedOpError :: go_error where
  "refusedOpError =
     \<lparr>isOpError = True, Error = ''dial tcp 10.0.0.7:80: connect: connection refused''\<rparr>"

definition timeoutOpError :: go_error where
  "timeoutOpError = \<lparr>isOpError = True, Error = ''dial tcp 10.0.0.7:80: i/o timeout''\<rparr>"

definition emfileOpError :: go_error where
  "emfileOpError =
     \<lparr>isOpError = True, Error = ''dial tcp 10.0.0.7:80: socket: too many open files''\<rparr>"

definition unreachableOpError :: go_error where
  "unreachableOpError =
     \<lparr>isOpError = True, Error = ''dial tcp 10.0.0.7:80: connect: no route to host''\<rparr>"

definition world :: env where
  "world =
     \<lparr>ValidateIPOrRange = (\<lambda>s. False),
      GetUlimit = Inr 1024,
      GOOS = ''linux'',
      LookupAddr = (\<lambda>s. Inl \<lparr>isOpError = False, Error = ''lookup: no such host''\<rparr>),
      LookupIP = (\<lambda>s. Inl \<lparr>isOpError = False, Error = ''lookup: no such host''\<rparr>),
      ParseIP = (\<lambda>s. None),
      ParseCIDR = (\<lambda>s. None),
      IP_String = (\<lambda>ip. case ip of
                          [a, b, c, d] \<Rightarrow> decimal (unat a) @ ''.'' @ decimal (unat b) @ ''.''
                                            @ decimal (unat c) @ ''.'' @ decimal (unat d)
                        | _ \<Rightarrow> ''?''),
      IP_Equal = (\<lambda>a b. a = b),
      cidrContains = (\<lambda>s ip. None),
      NewPinger = (\<lambda>s. None),
      PingerRun = (\<lambda>addr count timeout privileged. \<lparr>PacketsRecv = 0, StatRtts = []\<rparr>),
      Interfaces = Inr [],
      arpSearch = (\<lambda>s. []),
      ParseMAC = (\<lambda>s. Inl \<lparr>isOpError = False, Error = ''address : invalid MAC address''\<rparr>),
      HardwareAddr_String = (\<lambda>mac. []),
      arpDial = (\<lambda>iface. Inl \<lparr>isOpError = False, Error = ''operation not permitted''\<rparr>),
      LookupVendor = (\<lambda>mac. Inl \<lparr>isOpError = False, Error = ''not found''\<rparr>),
      DialTimeout = (\<lambda>addr k. if k < 2 then Failed emfileOpError else Connected)\<rparr>"

text \<open>
  The same world when the descriptor limit cannot be read, and an error with the text
  of descriptor exhaustion and a dynamic type other than \<open>*net.OpError\<close>.
\<close>

definition noLimitWorld :: env where
  "noLimitWorld =
     world\<lparr>GetUlimit := Inl \<lparr>isOpError = False, Error = ''operation not permitted''\<rparr>\<rparr>"

definition emfileOtherError :: go_error where
  "emfileOtherError =
     \<lparr>isOpError = False, Error = ''dial tcp 10.0.0.7:80: socket: too many open files''\<rparr>"

text \<open>The Target that \<open>world\<close> builds for a name it cannot resolve.\<close>

definition lostHost :: Target where
  "lostHost = \<lparr>HostName = [], Vendor = [], IPAddr = None, MACAddr = None,
                InitialTarget = ''no-such-host.example'', Status = OfflineFiltered,
                Location = UnknownLoc, Ports = [tcp80], Rtts = []\<rparr>"

text \<open>
  Three more worlds: one whose validator accepts the dash-range token, one whose
  \<open>net.ParseCIDR\<close> reads the block 0.0.0.0/0, and one whose DNS resolves
  www.example.org to 10.0.0.7 and 10.0.0.7 back to host7.example.org; and the Target
  \<open>NewTarget\<close> starts from for that name.
\<close>

definition rangeWorld :: env where
  "rangeWorld = world\<lparr>ValidateIPOrRange := (\<lambda>s. s = ''10.0.1-3.5'')\<rparr>"

definition cidrWorld :: env where
  "cidrWorld = world\<lparr>ParseCIDR := (\<lambda>s. if s = ''0.0.0.0/0'' then Some (0, 0) else None)\<rparr>"

definition dnsWorld :: env where
  "dnsWorld = world
     \<lparr>LookupIP := (\<lambda>s. if s = ''www.example.org'' then Inr [[10, 0, 0, 7]]
                       else Inl \<lparr>isOpError = False, Error = ''lookup: no such host''\<rparr>),
      LookupAddr := (\<lambda>s. if s = ''10.0.0.7'' then Inr [''host7.example.org.'']
                         else Inl \<lparr>isOpError = False, Error = ''lookup: unrecognized address''\<rparr>)\<rparr>"

definition wwwTarget :: Target where
  "wwwTarget = \<lparr>HostName = [], Vendor = [], IPAddr = None, MACAddr = None,
                 InitialTarget = ''www.example.org'', Status = Unknown,
                 Location = NoLocation, Ports = [tcp80], Rtts = []\<rparr>"

section \<open>Properties of the port probe\<close>

subsection \<open>The error texts exclude each other\<close>

lemma HasSuffix_last: "HasSuffix s suf \<Longrightarrow> suf \<noteq> [] \<Longrightarrow> last s = last suf"
  unfolding HasSuffix_def
  by (metis last_drop length_0_conv diff_less length_greater_0_conv drop_eq_Nil2)

lemma timeout_not_refused: "HasSuffix s ''i/o timeout'' \<Longrightarrow> \<not> refused s"
  unfolding refused_def by (auto dest!: HasSuffix_last)

lemma emfile_not_refused: "HasSuffix s ''too many open files'' \<Longrightarrow> \<not> refused s"
  unfolding refused_def by (auto dest!: HasSuffix_last)

lemma emfile_not_timeout:
  "HasSuffix s ''too many open files'' \<Longrightarrow> \<not> HasSuffix s ''i/o timeout''"
  by (auto dest!: HasSuffix_last)

subsection \<open>The type assertion\<close>

text \<open>
  The connect error of a probe is what \<open>net.DialTimeout\<close> returns, and the errors of a
  dial are \<open>*net.OpError\<close> values: the ones for which the type assertion
  \<open>err.(*net.OpError)\<close> of line 116 holds. An error of another dynamic type falls
  through every branch: the Target stays as it was and an empty PortResults goes on the
  channel.
\<close>

lemma scanPort_not_OpError:
  "\<not> isOpError err \<Longrightarrow>
   scanPort t p (Failed err) = (t, [Acquire 1, Dial p 3000, Release 1, Send NewPortResults])"
  by (simp add: scanPort_def Let_def)

subsection \<open>Classification\<close>

text \<open>
  C1. For every port probe run by \<open>scanPort\<close>, the outcome of its one TCP connect
  decides where the port goes in the PortResults of the probe. A successful connect
  delivers the port in Open. A connect error (a \<open>*net.OpError\<close>, as every error of
  \<open>net.DialTimeout\<close> is) whose text ends with "connect: connection refused" or with the
  Windows refusal message delivers it in Closed and in neither Open nor Filtered; one
  whose text ends with "i/o timeout" delivers it in Filtered; any other connect error
  leaves it in none of the three buckets: whatever the probe delivers holds the port
  nowhere, and that is an empty PortResults, or nothing at all when the text ends with
  "too many open files" and the probe is resubmitted.
\<close>

theorem scanPort_classification:
  assumes "isOpError err"
  shows "sent (snd (scanPort t p Connected)) = [\<lparr>Open = [p], Closed = [], Filtered = []\<rparr>]
   \<and> (refused (Error err) \<longrightarrow>
        sent (snd (scanPort t p (Failed err))) = [\<lparr>Open = [], Closed = [p], Filtered = []\<rparr>])
   \<and> (HasSuffix (Error err) ''i/o timeout'' \<longrightarrow>
        sent (snd (scanPort t p (Failed err))) = [\<lparr>Open = [], Closed = [], Filtered = [p]\<rparr>])
   \<and> (\<not> refused (Error err) \<and> \<not> HasSuffix (Error err) ''i/o timeout'' \<longrightarrow>
        (\<forall>r \<in> set (sent (snd (scanPort t p (Failed err)))).
            p \<notin> set (Open r) \<and> p \<notin> set (Closed r) \<and> p \<notin> set (Filtered r))
        \<and> sent (snd (scanPort t p (Failed err))) =
            (if HasSuffix (Error err) ''too many open files'' then []
             else [\<lparr>Open = [], Closed = [], Filtered = []\<rparr>]))"
  using assms
  by (auto simp: scanPort_def sent_def NewPortResults_def Let_def
      dest: timeout_not_refused emfile_not_refused emfile_not_timeout)

theorem scanPort_classification_witness:
  "sent (snd (scanPort host7 tcp80 Connected)) = [\<lparr>Open = [tcp80], Closed = [], Filtered = []\<rparr>]
   \<and> sent (snd (scanPort host7 tcp80 (Failed refusedOpError)))
       = [\<lparr>Open = [], Closed = [tcp80], Filtered = []\<rparr>]
   \<and> sent (snd (scanPort host7 tcp80 (Failed timeoutOpError)))
       = [\<lparr>Open = [], Closed = [], Filtered = [tcp80]\<rparr>]
   \<and> sent (snd (scanPort host7 tcp80 (Failed unreachableOpError)))
       = [\<lparr>Open = [], Closed = [], Filtered = []\<rparr>]
   \<and> sent (snd (scanPort host7 tcp80 (Failed emfileOpError))) = []"
proof -
  have r: "isOpError refusedOpError" and f: "isOpError timeoutOpError"
    and u: "isOpError unreachableOpError" and m: "isOpError emfileOpError"
    by (simp_all add: refusedOpError_def timeoutOpError_def unreachableOpError_def
        emfileOpError_def)
  show ?thesis
    using scanPort_classification [where t = host7 and p = tcp80, OF r]
          scanPort_classification [where t = host7 and p = tcp80, OF f]
          scanPort_classification [where t = host7 and p = tcp80, OF u]
          scanPort_classification [where t = host7 and p = tcp80, OF m]
    by (simp add: refused_def HasSuffix_def refusedOpError_def timeoutOpError_def
        emfileOpError_def unreachableOpError_def)
qed

subsection \<open>The status update\<close>

text \<open>
  C2. A probe changes nothing of its Target but \<open>Status\<close>, and that exactly so: a
  successful connect sets it to Online whatever it was; a connect error (a
  \<open>*net.OpError\<close>, as every error of \<open>net.DialTimeout\<close> is) with the text of a
  refused connection sets it to Online when it is Unknown or OfflineFiltered and not
  otherwise; one whose text ends with "i/o timeout" sets it to OfflineFiltered when it
  is Unknown and not otherwise; every other outcome leaves the Target as it was.
\<close>

theorem scanPort_status:
  assumes "isOpError err"
  shows "fst (scanPort t p Connected) = t\<lparr>Status := Online\<rparr>
   \<and> (refused (Error err) \<longrightarrow>
        fst (scanPort t p (Failed err)) =
          (if Status t = Unknown \<or> Status t = OfflineFiltered then t\<lparr>Status := Online\<rparr> else t))
   \<and> (HasSuffix (Error err) ''i/o timeout'' \<longrightarrow>
        fst (scanPort t p (Failed err)) =
          (if Status t = Unknown then t\<lparr>Status := OfflineFiltered\<rparr> else t))
   \<and> (\<not> refused (Error err) \<and> \<not> HasSuffix (Error err) ''i/o timeout'' \<longrightarrow>
        fst (scanPort t p (Failed err)) = t)"
  using assms by (auto simp: scanPort_def Let_def dest: timeout_not_refused)

theorem scanPort_status_witness:
  "fst (scanPort host7 tcp80 Connected) = host7\<lparr>Status := Online\<rparr>
   \<and> fst (scanPort host7 tcp80 (Failed refusedOpError)) = host7\<lparr>Status := Online\<rparr>
   \<and> fst (scanPort (host7\<lparr>Status := OfflineFiltered\<rparr>) tcp80 (Failed refusedOpError))
       = host7\<lparr>Status := Online\<rparr>
   \<and> fst (scanPort host7 tcp80 (Failed timeoutOpError)) = host7\<lparr>Status := OfflineFiltered\<rparr>
   \<and> fst (scanPort (host7\<lparr>Status := OfflineFiltered\<rparr>) tcp80 (Failed timeoutOpError))
       = host7\<lparr>Status := OfflineFiltered\<rparr>
   \<and> fst (scanPort (host7\<lparr>Status := Online\<rparr>) tcp80 (Failed timeoutOpError))
       = host7\<lparr>Status := Online\<rparr>
   \<and> fst (scanPort host7 tcp80 (Failed unreachableOpError)) = host7
   \<and> fst (scanPort host7 tcp80 (Failed emfileOpError)) = host7"
proof -
  have r: "isOpError refusedOpError" and f: "isOpError timeoutOpError"
    and u: "isOpError unreachableOpError" and m: "isOpError emfileOpError"
    by (simp_all add: refusedOpError_def timeoutOpError_def unreachableOpError_def
        emfileOpError_def)
  show ?thesis
    using scanPort_status [where t = host7 and p = tcp80, OF r]
          scanPort_status [where t = "host7\<lparr>Status := OfflineFiltered\<rparr>" and p = tcp80, OF r]
          scanPort_status [where t = host7 and p = tcp80, OF f]
          scanPort_status [where t = "host7\<lparr>Status := OfflineFiltered\<rparr>" and p = tcp80, OF f]
          scanPort_status [where t = "host7\<lparr>Status := Online\<rparr>" and p = tcp80, OF f]
          scanPort_status [where t = host7 and p = tcp80, OF u]
          scanPort_status [where t = host7 and p = tcp80, OF m]
    by (simp add: refused_def HasSuffix_def refusedOpError_def timeoutOpError_def
        unreachableOpError_def emfileOpError_def host7_def)
qed

text \<open>
  C7. On a Target whose Status is Unknown, the status update of one probe that ends in
  a refused connection and the status update of one that ends in "i/o timeout" (connect
  errors both, so \<open>*net.OpError\<close> values), applied one after the other, leave Status
  Online in both orders: refused then timeout, and timeout then refused.
\<close>

theorem refused_timeout_both_orders:
  assumes "Status t = Unknown"
    and "isOpError r" and "refused (Error r)"
    and "isOpError f" and "HasSuffix (Error f) ''i/o timeout''"
  shows "Status (fst (scanPort (fst (scanPort t p (Failed r))) q (Failed f))) = Online
       \<and> Status (fst (scanPort (fst (scanPort t q (Failed f))) p (Failed r))) = Online"
  using assms by (auto simp: scanPort_def Let_def dest: timeout_not_refused)

theorem refused_timeout_both_orders_witness:
  "Status (fst (scanPort (fst (scanPort host7 tcp80 (Failed refusedOpError))) tcp80
                  (Failed timeoutOpError))) = Online
   \<and> Status (fst (scanPort (fst (scanPort host7 tcp80 (Failed timeoutOpError))) tcp80
                  (Failed refusedOpError))) = Online"
  using refused_timeout_both_orders [of host7 refusedOpError timeoutOpError tcp80 tcp80]
  by (simp add: refused_def HasSuffix_def refusedOpError_def timeoutOpError_def host7_def)

subsection \<open>Descriptor exhaustion\<close>

lemma replay_scanPort:
  "1 \<le> capacity lock - cur lock \<Longrightarrow> replay lock (snd (scanPort t p d)) = Some lock"
  by (cases d) (auto simp: scanPort_def Let_def)

lemma scanPort_emfile:
  "isOpError err \<Longrightarrow> HasSuffix (Error err) ''too many open files'' \<Longrightarrow>
   scanPort t p (Failed err) = (t, [Acquire 1, Dial p 3000, Sleep 3000, Go p, Release 1])"
  by (auto simp: scanPort_def Let_def dest: emfile_not_refused emfile_not_timeout)

lemma runProbe_retries:
  assumes "isOpError err" and "HasSuffix (Error err) ''too many open files''"
    and "1 \<le> capacity lock - cur lock"
    and "\<forall>i<n. DialTimeout e (dialAddr e t p) (k + i) = Failed err"
    and "DialTimeout e (dialAddr e t p) (k + n) = d"
    and "resubmitted (snd (scanPort t p d)) = []"
  shows "runProbe e lock t p k done =
           Some (lock, fst (scanPort t p d),
                 done @ concat (replicate n [Acquire 1, Dial p 3000, Sleep 3000, Go p, Release 1])
                   @ snd (scanPort t p d))"
  using assms
proof (induction n arbitrary: k "done")
  case 0
  obtain t' tr where sp: "scanPort t p d = (t', tr)"
    by (cases "scanPort t p d")
  have "replay lock tr = Some lock"
    using replay_scanPort [OF "0.prems"(3), of t p d] sp by simp
  moreover have "resubmitted tr = []"
    using "0.prems"(6) sp by simp
  moreover have "DialTimeout e (dialAddr e t p) k = d"
    using "0.prems"(5) by simp
  ultimately show ?case
    by (subst runProbe.simps) (simp add: sp)
next
  case (Suc n)
  have first: "DialTimeout e (dialAddr e t p) k = Failed err"
    using Suc.prems(4) by (metis add.right_neutral zero_less_Suc)
  have rest: "\<forall>i<n. DialTimeout e (dialAddr e t p) (Suc k + i) = Failed err"
    using Suc.prems(4) by (metis Suc_less_eq add_Suc_right add_Suc)
  have final: "DialTimeout e (dialAddr e t p) (Suc k + n) = d"
    using Suc.prems(5) by simp
  have step: "runProbe e lock t p k done =
      runProbe e lock t p (Suc k) (done @ [Acquire 1, Dial p 3000, Sleep 3000, Go p, Release 1])"
    using Suc.prems(1-3)
    by (subst runProbe.simps) (simp add: first scanPort_emfile resubmitted_def)
  show ?case
    unfolding step
    using Suc.IH [OF Suc.prems(1-3) rest final Suc.prems(6)] by simp
qed

text \<open>
  C3, as the code has it. When the connect attempt of a probe fails with a
  \<open>*net.OpError\<close> whose text ends in "too many open files", the probe, still holding
  its weight of 1, pauses for the 3000 ms of the connect timeout, then resubmits the
  same port as a new concurrent unit, and only then releases the weight; it delivers
  nothing on the channel and leaves the Target as it was. There is no cap and no
  growth: after any number \<open>n\<close> of such failures in a row the probe has paused \<open>n\<close>
  times for 3000 ms, and the first other outcome \<open>d\<close> is handled as in a first attempt.
\<close>

theorem too_many_open_files_retry:
  assumes "isOpError err" and "HasSuffix (Error err) ''too many open files''"
    and "1 \<le> capacity lock - cur lock"
    and "\<forall>i<n. DialTimeout e (dialAddr e t p) i = Failed err"
    and "DialTimeout e (dialAddr e t p) n = d"
    and "resubmitted (snd (scanPort t p d)) = []"
  shows "scanPort t p (Failed err) = (t, [Acquire 1, Dial p 3000, Sleep 3000, Go p, Release 1])
       \<and> sent (snd (scanPort t p (Failed err))) = []
       \<and> runProbe e lock t p 0 [] =
           Some (lock, fst (scanPort t p d),
                 concat (replicate n [Acquire 1, Dial p 3000, Sleep 3000, Go p, Release 1])
                   @ snd (scanPort t p d))"
proof -
  have one: "scanPort t p (Failed err) = (t, [Acquire 1, Dial p 3000, Sleep 3000, Go p, Release 1])"
    using assms(1,2) by (rule scanPort_emfile)
  have chain: "runProbe e lock t p 0 [] =
      Some (lock, fst (scanPort t p d),
            [] @ concat (replicate n [Acquire 1, Dial p 3000, Sleep 3000, Go p, Release 1])
              @ snd (scanPort t p d))"
  proof -
    have a4: "\<forall>i<n. DialTimeout e (dialAddr e t p) (0 + i) = Failed err"
      using assms(4) by simp
    have a5: "DialTimeout e (dialAddr e t p) (0 + n) = d"
      using assms(5) by simp
    show ?thesis
      by (rule runProbe_retries [OF assms(1-3) a4 a5 assms(6)])
  qed
  show ?thesis
    using one chain by (simp add: sent_def)
qed

theorem too_many_open_files_retry_witness:
  "scanPort host7 tcp80 (Failed emfileOpError)
     = (host7, [Acquire 1, Dial tcp80 3000, Sleep 3000, Go tcp80, Release 1])
   \<and> sent (snd (scanPort host7 tcp80 (Failed emfileOpError))) = []
   \<and> runProbe world (NewWeighted 1024) host7 tcp80 0 [] =
       Some (NewWeighted 1024, host7\<lparr>Status := Online\<rparr>,
             [Acquire 1, Dial tcp80 3000, Sleep 3000, Go tcp80, Release 1,
              Acquire 1, Dial tcp80 3000, Sleep 3000, Go tcp80, Release 1,
              Acquire 1, Dial tcp80 3000,
              Send \<lparr>Open = [tcp80], Closed = [], Filtered = []\<rparr>, Release 1, Close])"
proof -
  have h1: "isOpError emfileOpError"
    and h2: "HasSuffix (Error emfileOpError) ''too many open files''"
    by (simp_all add: emfileOpError_def HasSuffix_def)
  have h3: "1 \<le> capacity (NewWeighted 1024) - cur (NewWeighted 1024)"
    by (simp add: NewWeighted_def)
  have h4: "\<forall>i<2. DialTimeout world (dialAddr world host7 tcp80) i = Failed emfileOpError"
    by (simp add: world_def)
  have h5: "DialTimeout world (dialAddr world host7 tcp80) 2 = Connected"
    by (simp add: world_def)
  have h6: "resubmitted (snd (scanPort host7 tcp80 Connected)) = []"
    by (simp add: scanPort_def resubmitted_def)
  have c: "scanPort host7 tcp80 Connected =
      (host7\<lparr>Status := Online\<rparr>,
       [Acquire 1, Dial tcp80 3000, Send \<lparr>Open = [tcp80], Closed = [], Filtered = []\<rparr>,
        Release 1, Close])"
    by (simp add: scanPort_def NewPortResults_def)
  have r: "replicate 2 x = [x, x]" for x :: "event list"
    by (simp add: numeral_2_eq_2)
  show ?thesis
    using too_many_open_files_retry [OF h1 h2 h3 h4 h5 h6] by (simp add: c r sent_def)
qed

text \<open>
  The weight is not released before the pause: in the trace of the failed attempt the
  pause comes before the release, and no pause comes after it. And the text alone does
  not decide: when the error is not a \<open>*net.OpError\<close> the probe neither pauses nor
  resubmits, and delivers an empty PortResults.
\<close>

theorem too_many_open_files_retry_counterexample:
  "isOpError emfileOpError
   \<and> HasSuffix (Error emfileOpError) ''too many open files''
   \<and> precedes (Sleep 3000) (Release 1) (snd (scanPort host7 tcp80 (Failed emfileOpError)))
   \<and> \<not> precedes (Release 1) (Sleep 3000) (snd (scanPort host7 tcp80 (Failed emfileOpError)))
   \<and> HasSuffix (Error emfileOtherError) ''too many open files''
   \<and> snd (scanPort host7 tcp80 (Failed emfileOtherError))
       = [Acquire 1, Dial tcp80 3000, Release 1,
          Send \<lparr>Open = [], Closed = [], Filtered = []\<rparr>]"
  by (simp add: scanPort_def Let_def refused_def HasSuffix_def emfileOpError_def
      emfileOtherError_def precedes_def NewPortResults_def)

section \<open>Properties of the Governor\<close>

lemma int64_in_range: "- (2 ^ 63) \<le> x \<Longrightarrow> x < 2 ^ 63 \<Longrightarrow> int64 x = x"
  by (simp add: int64_def sint_sbintrunc' signed_take_bit_int_eq_self)

text \<open>
  C9. The Governor that \<open>ParseHostString\<close>, \<open>Targets.Scan\<close> and \<open>Target.Scan\<close> each
  create is a new weighted semaphore whose capacity is \<open>int64(l)\<close> for the descriptor
  limit \<open>l\<close> that \<open>GetUlimit\<close> returned, which is \<open>l\<close> itself for every value a Go int
  has, or 1024 when \<open>GetUlimit\<close> returned an error.
\<close>

theorem governor_capacity:
  "(GetUlimit e = Inr l \<and> - (2 ^ 63) \<le> l \<and> l < 2 ^ 63 \<longrightarrow>
      fst (ParseHostString e hostArgs ports privileged) = NewWeighted l
      \<and> fst (Targets_Scan e ts) = NewWeighted l
      \<and> fst (Target_Scan e t) = NewWeighted l)
   \<and> (GetUlimit e = Inl err \<longrightarrow>
      fst (ParseHostString e hostArgs ports privileged) = NewWeighted 1024
      \<and> fst (Targets_Scan e ts) = NewWeighted 1024
      \<and> fst (Target_Scan e t) = NewWeighted 1024)
   \<and> capacity (NewWeighted n) = n"
  by (auto simp: ParseHostString_def Targets_Scan_def Target_Scan_def Let_def NewWeighted_def
      int64_in_range split: prod.splits)

theorem governor_capacity_witness:
  "capacity (fst (ParseHostString world ''10.0.0.7'' [tcp80] False)) = 1024
   \<and> capacity (fst (Targets_Scan world [host7])) = 1024
   \<and> capacity (fst (Target_Scan world host7)) = 1024
   \<and> capacity (fst (ParseHostString noLimitWorld ''10.0.0.7'' [tcp80] False)) = 1024
   \<and> capacity (fst (Targets_Scan noLimitWorld [host7])) = 1024
   \<and> capacity (fst (Target_Scan noLimitWorld host7)) = 1024
   \<and> capacity (fst (Target_Scan (world\<lparr>GetUlimit := Inr 65536\<rparr>) host7)) = 65536"
proof -
  have w: "GetUlimit world = Inr 1024 \<and> - (2 ^ 63) \<le> (1024::int) \<and> (1024::int) < 2 ^ 63"
    by (simp add: world_def)
  have n: "GetUlimit noLimitWorld = Inl \<lparr>isOpError = False, Error = ''operation not permitted''\<rparr>"
    by (simp add: noLimitWorld_def world_def)
  have b: "GetUlimit (world\<lparr>GetUlimit := Inr 65536\<rparr>) = Inr 65536
           \<and> - (2 ^ 63) \<le> (65536::int) \<and> (65536::int) < 2 ^ 63"
    by simp
  show ?thesis
    using governor_capacity [of world 1024 "''10.0.0.7''" "[tcp80]" False "[host7]" host7]
          governor_capacity [of noLimitWorld _ "''10.0.0.7''" "[tcp80]" False "[host7]" host7
            "\<lparr>isOpError = False, Error = ''operation not permitted''\<rparr>"]
          governor_capacity [of "world\<lparr>GetUlimit := Inr 65536\<rparr>" 65536 _ _ _ _ host7]
          w n b
    by (simp add: NewWeighted_def)
qed

section \<open>Properties of package netUtil\<close>

lemma joinPorts_length: "length ret + 2 * length ps \<le> length (joinPorts i n ps ret)"
proof (induction ps arbitrary: i ret)
  case Nil
  then show ?case by simp
next
  case (Cons p ps)
  show ?case
    using Cons.IH [of "ret @ Port_String p @ '', ''" "i + 1"]
          Cons.IH [of "(ret @ Port_String p @ '', '') @ [CHR 0x0A]" "i + 1"]
    by (simp add: Let_def)
qed

lemma joinPreview_length: "length ret + 2 * length ps \<le> length (joinPreview i n ps ret)"
proof (induction ps arbitrary: i ret)
  case Nil
  then show ?case by simp
next
  case (Cons p ps)
  show ?case
    using Cons.IH [of "ret @ Port_String p @ '', ''" "i + 1"]
          Cons.IH [of "(ret @ [CHR 0x0A]) @ Port_String p @ '', ''" "i + 1"]
    by (simp add: Let_def)
qed

lemma Ports_String_nonempty: "ps \<noteq> [] \<Longrightarrow> \<exists>s. Ports_String ps = Inr s"
  using joinPorts_length [of "[]" ps 0 "length ps"]
  by (cases ps) (auto simp: Ports_String_def sliceTo_def Let_def)

lemma Ports_Preview_nonempty: "ps \<noteq> [] \<Longrightarrow> \<exists>s. Ports_Preview ps = Inr s"
proof (cases "length ps < 30")
  case True
  assume "ps \<noteq> []"
  then show ?thesis
    using True joinPorts_length [of "[]" ps 0 "length ps"]
    by (cases ps) (auto simp: Ports_Preview_def sliceTo_def Let_def)
next
  case False
  then have "2 * 30 \<le> length (joinPreview 0 (length ps) (take 30 ps) [])"
    using joinPreview_length [of "[]" "take 30 ps" 0 "length ps"] by simp
  then show ?thesis
    using False by (auto simp: Ports_Preview_def sliceTo_def Let_def)
qed

text \<open>
  C10. \<open>Ports.String\<close> and \<open>Ports.Preview\<close> on an empty Ports panic: the string built
  is empty and \<open>ret[:len(ret)-2]\<close> has the bound -2. Each of the two returns a string
  exactly when the Ports are not empty.
\<close>

theorem Ports_String_Preview_panic:
  "Ports_String [] = Inl SliceBoundsOutOfRange
   \<and> Ports_Preview [] = Inl SliceBoundsOutOfRange
   \<and> ((\<exists>s. Ports_String ps = Inr s) = (ps \<noteq> []))
   \<and> ((\<exists>s. Ports_Preview ps = Inr s) = (ps \<noteq> []))"
proof -
  have s: "Ports_String [] = Inl SliceBoundsOutOfRange"
    by (simp add: Ports_String_def sliceTo_def)
  have p: "Ports_Preview [] = Inl SliceBoundsOutOfRange"
    by (simp add: Ports_Preview_def sliceTo_def)
  show ?thesis
    using s p Ports_String_nonempty [of ps] Ports_Preview_nonempty [of ps]
    by (cases "ps = []") auto
qed

section \<open>Properties of unresolved Targets\<close>

lemma Ping_IPAddr: "IPAddr (fst (Ping e t c pr)) = IPAddr t"
  by (simp add: Ping_def Let_def split: option.splits)

lemma hostAddrs_IPAddr: "hostAddrs e t iface addrs = Some t' \<Longrightarrow> IPAddr t' = IPAddr t"
  by (induction addrs) (auto simp: Let_def split: Addr.splits if_splits)

lemma hostInterfaces_IPAddr: "hostInterfaces e t ifaces = Some t' \<Longrightarrow> IPAddr t' = IPAddr t"
  by (induction ifaces) (auto split: sum.splits option.splits dest: hostAddrs_IPAddr)

lemma IsHost_IPAddr: "IPAddr (fst (IsHost e t)) = IPAddr t"
  by (auto simp: IsHost_def split: sum.splits option.splits dest: hostInterfaces_IPAddr)

lemma arpRequest_IPAddr: "IPAddr (arpRequest e t iface) = IPAddr t"
  by (simp add: arpRequest_def Let_def split: sum.splits option.splits)

lemma arpAddrs_IPAddr: "arpAddrs e t iface addrs = Some t' \<Longrightarrow> IPAddr t' = IPAddr t"
  by (induction addrs) (auto simp: arpRequest_IPAddr split: option.splits bool.splits)

lemma arpInterfaces_IPAddr: "arpInterfaces e t ifaces = Some t' \<Longrightarrow> IPAddr t' = IPAddr t"
  by (induction ifaces) (auto split: sum.splits option.splits dest: arpAddrs_IPAddr)

lemma QueryMac_IPAddr: "IPAddr (QueryMac e t) = IPAddr t"
proof -
  obtain t1 b err where h: "IsHost e t = (t1, b, err)"
    by (cases "IsHost e t")
  then have t1: "IPAddr t1 = IPAddr t"
    using IsHost_IPAddr [of e t] by simp
  show ?thesis
    unfolding QueryMac_def h
    by (auto simp: t1 split: sum.splits option.splits dest: arpInterfaces_IPAddr)
qed

lemma LookUpVendor_IPAddr: "IPAddr (LookUpVendor e t) = IPAddr t"
  by (simp add: LookUpVendor_def split: sum.splits option.splits)

lemma Resolve_Status:
  "Resolve e t = Inr t' \<Longrightarrow> Status t' = Status t \<or> Status t' = OfflineFiltered"
  by (auto simp: Resolve_def split: if_splits sum.splits list.splits)

lemma NewTarget_unresolved:
  assumes "NewTarget e s ports privileged = (tr, Inr h)" and "IPAddr h = None"
  shows "Location h = UnknownLoc \<and> MACAddr h = None
       \<and> (Status h = OfflineFiltered \<or> Status h = Unknown) \<and> tr = [Invoke MResolve]"
proof -
  let ?h0 = "\<lparr>HostName = [], Vendor = [], IPAddr = None, MACAddr = None,
               InitialTarget = s, Status = Unknown, Location = NoLocation,
               Ports = ports, Rtts = []\<rparr>"
  from assms(1) obtain h1 where r: "Resolve e ?h0 = Inr h1"
    by (auto simp: NewTarget_def Let_def split: sum.splits)
  have st: "Status h1 = Unknown \<or> Status h1 = OfflineFiltered"
    using Resolve_Status [OF r] by simp
  show ?thesis
  proof (cases "IPAddr h1 = None")
    case True
    then show ?thesis
      using assms(1) r st by (auto simp: NewTarget_def Let_def)
  next
    case False
    obtain h2 stats err where p: "Ping e h1 3 privileged = (h2, stats, err)"
      by (cases "Ping e h1 3 privileged")
    have "IPAddr h2 = IPAddr h1"
      using Ping_IPAddr [of e h1 3 privileged] p by simp
    then have "IPAddr h \<noteq> None"
      using assms(1) r False p
      by (auto simp: NewTarget_def Let_def QueryMac_IPAddr LookUpVendor_IPAddr
          split: option.splits)
    then show ?thesis
      using assms(2) by simp
  qed
qed

lemma AsyncNewTarget_unresolved:
  assumes "AsyncNewTarget e s ports privileged = (tr, Inr h)" and "IPAddr h = None"
  shows "Location h = UnknownLoc \<and> MACAddr h = None
       \<and> (Status h = OfflineFiltered \<or> Status h = Unknown)
       \<and> tr = [Acquire 4, Invoke MResolve, Release 3, SendTarget h]"
proof -
  obtain tr0 where n: "NewTarget e s ports privileged = (tr0, Inr h)"
    and tr: "tr = Acquire 4 # tr0 @ [Release 3, SendTarget h]"
    using assms(1) by (auto simp: AsyncNewTarget_def split: prod.splits sum.splits)
  show ?thesis
    using NewTarget_unresolved [OF n assms(2)] tr by simp
qed

lemma scanPort_IPAddr: "IPAddr (fst (scanPort t p d)) = IPAddr t"
  by (cases d) (auto simp: scanPort_def Let_def)

lemma runProbe_IPAddr:
  assumes "runProbe e lock t p k done = Some y"
  shows "IPAddr (fst (snd y)) = IPAddr t"
proof (rule runProbe.raw_induct
    [where P = "\<lambda>e lock t p k done y. IPAddr (fst (snd y)) = IPAddr t", OF _ assms])
  fix rp e lock t p k "done" y
  assume IH: "\<And>e lock t p k done y. rp e lock t p k done = Some y
                \<Longrightarrow> IPAddr (fst (snd y)) = IPAddr t"
    and body: "(case scanPort t p (DialTimeout e (dialAddr e t p) k) of
      (t', tr) \<Rightarrow>
        (case replay lock tr of None \<Rightarrow> None
         | Some lock' \<Rightarrow>
            (case resubmitted tr of [] \<Rightarrow> Some (lock', t', done @ tr)
             | q # x \<Rightarrow> rp e lock' t' q (Suc k) (done @ tr)))) = Some y"
  obtain t' tr where sp: "scanPort t p (DialTimeout e (dialAddr e t p) k) = (t', tr)"
    by (cases "scanPort t p (DialTimeout e (dialAddr e t p) k)")
  have t': "IPAddr t' = IPAddr t"
    using scanPort_IPAddr [of t p "DialTimeout e (dialAddr e t p) k"] sp by simp
  show "IPAddr (fst (snd y)) = IPAddr t"
    using body IH t'
    by (auto simp: sp split: option.splits list.splits)
qed

lemma probePorts_IPAddr:
  "probePorts e lock t ps r = Some (lock', t', r') \<Longrightarrow> IPAddr t' = IPAddr t"
proof (induction ps arbitrary: lock t r)
  case Nil
  then show ?case by simp
next
  case (Cons p ps)
  then show ?case
    by (auto split: option.splits dest!: runProbe_IPAddr)
qed

lemma scan_IPAddr: "scan e lock t = Some (lock', r) \<Longrightarrow> IPAddr (ResultTarget r) = IPAddr t"
  by (auto simp: scan_def Let_def split: option.splits dest: probePorts_IPAddr)

lemma collectScans_resolved:
  "collectScans e lock ts acc = Some rs \<Longrightarrow>
   \<forall>t \<in> set ts. IPAddr t \<noteq> None \<Longrightarrow>
   \<forall>r \<in> set acc. IPAddr (ResultTarget r) \<noteq> None \<Longrightarrow>
   \<forall>r \<in> set rs. IPAddr (ResultTarget r) \<noteq> None"
proof (induction ts arbitrary: lock acc)
  case Nil
  then show ?case by simp
next
  case (Cons t ts)
  from Cons.prems(1) obtain lock' r where s: "scan e lock t = Some (lock', r)"
    and c: "collectScans e lock' ts (acc @ [r]) = Some rs"
    by (auto split: option.splits)
  have "IPAddr (ResultTarget r) \<noteq> None"
    using scan_IPAddr [OF s] Cons.prems(2) by simp
  then show ?case
    using Cons.IH [OF c] Cons.prems(2,3) by simp
qed

lemma dispatchTargets_filter:
  "dispatchTargets ts (u, s) =
     (u @ filter (\<lambda>t. IPAddr t = None) ts, s @ filter (\<lambda>t. IPAddr t \<noteq> None) ts)"
  by (induction ts arbitrary: u s) auto

lemma runProbe_world_host7:
  "runProbe world (NewWeighted 1024) host7 tcp80 0 [] =
     Some (NewWeighted 1024, host7\<lparr>Status := Online\<rparr>,
           [Acquire 1, Dial tcp80 3000, Sleep 3000, Go tcp80, Release 1,
            Acquire 1, Dial tcp80 3000, Sleep 3000, Go tcp80, Release 1,
            Acquire 1, Dial tcp80 3000,
            Send \<lparr>Open = [tcp80], Closed = [], Filtered = []\<rparr>, Release 1, Close])"
proof -
  have h1: "isOpError emfileOpError"
    and h2: "HasSuffix (Error emfileOpError) ''too many open files''"
    by (simp_all add: emfileOpError_def HasSuffix_def)
  have h3: "1 \<le> capacity (NewWeighted 1024) - cur (NewWeighted 1024)"
    by (simp add: NewWeighted_def)
  have h4: "\<forall>i<2. DialTimeout world (dialAddr world host7 tcp80) (0 + i) = Failed emfileOpError"
    by (simp add: world_def)
  have h5: "DialTimeout world (dialAddr world host7 tcp80) (0 + 2) = Connected"
    by (simp add: world_def)
  have h6: "resubmitted (snd (scanPort host7 tcp80 Connected)) = []"
    by (simp add: scanPort_def resubmitted_def)
  have c: "scanPort host7 tcp80 Connected =
      (host7\<lparr>Status := Online\<rparr>,
       [Acquire 1, Dial tcp80 3000, Send \<lparr>Open = [tcp80], Closed = [], Filtered = []\<rparr>,
        Release 1, Close])"
    by (simp add: scanPort_def NewPortResults_def)
  have r: "replicate 2 x = [x, x]" for x :: "event list"
    by (simp add: numeral_2_eq_2)
  show ?thesis
    using runProbe_retries [OF h1 h2 h3 h4 h5 h6, of "[]"] by (simp add: c r)
qed

lemma Targets_Scan_world:
  "snd (Targets_Scan world [lostHost, host7]) =
     Some \<lparr>Resolved = [\<lparr>ResultTarget = host7\<lparr>Status := Online\<rparr>,
                         ResultPorts = \<lparr>Open = [tcp80], Closed = [], Filtered = []\<rparr>\<rparr>],
           Unresolved = [lostHost]\<rparr>"
proof -
  have d: "dispatchTargets [lostHost, host7] ([], []) = ([lostHost], [host7])"
    by (simp add: lostHost_def host7_def)
  have p: "Ports host7 = [tcp80]"
    by (simp add: host7_def)
  have l: "(case GetUlimit world of Inl err \<Rightarrow> 1024 | Inr l \<Rightarrow> int64 l) = 1024"
    by (simp add: world_def int64_in_range)
  show ?thesis
    unfolding Targets_Scan_def Let_def d l
    by (simp add: scan_def p runProbe_world_host7 sent_def
        mergeResults_def NewScanResult_def NewPortResults_def)
qed

text \<open>
  C4. A Target that \<open>NewTarget\<close> or \<open>AsyncNewTarget\<close> returns with a nil \<open>IPAddr\<close> has
  Location UnknownLoc, a nil \<open>MACAddr\<close> and Status OfflineFiltered or Unknown; of the
  methods only \<open>Resolve\<close> was invoked on it (no \<open>Ping\<close>, no \<open>QueryMac\<close>, no
  \<open>LookUpVendor\<close>); and \<open>Targets.Scan\<close> puts it in Unresolved, starts no scan for it,
  and returns no ScanResult for it in Resolved.
\<close>

theorem unresolved_target:
  assumes "construct = NewTarget \<or> construct = AsyncNewTarget"
    and "construct e s ports privileged = (tr, Inr h)"
    and "IPAddr h = None"
  shows "Location h = UnknownLoc \<and> MACAddr h = None
       \<and> (Status h = OfflineFiltered \<or> Status h = Unknown)
       \<and> Invoke MPing \<notin> set tr \<and> Invoke MQueryMac \<notin> set tr \<and> Invoke MLookUpVendor \<notin> set tr
       \<and> (h \<in> set ts \<longrightarrow>
            h \<in> set (fst (dispatchTargets ts ([], [])))
            \<and> h \<notin> set (snd (dispatchTargets ts ([], [])))
            \<and> (\<forall>res. snd (Targets_Scan e' ts) = Some res \<longrightarrow>
                  h \<in> set (Unresolved res) \<and> h \<notin> ResultTarget ` set (Resolved res)))"
proof -
  have built: "Location h = UnknownLoc \<and> MACAddr h = None
       \<and> (Status h = OfflineFiltered \<or> Status h = Unknown)
       \<and> Invoke MPing \<notin> set tr \<and> Invoke MQueryMac \<notin> set tr \<and> Invoke MLookUpVendor \<notin> set tr"
    using assms(1)
  proof
    assume "construct = NewTarget"
    then show ?thesis
      using NewTarget_unresolved [of e s ports privileged tr h] assms(2,3) by simp
  next
    assume "construct = AsyncNewTarget"
    then show ?thesis
      using AsyncNewTarget_unresolved [of e s ports privileged tr h] assms(2,3) by simp
  qed
  have routed: "h \<in> set (Unresolved res) \<and> h \<notin> ResultTarget ` set (Resolved res)"
    if "h \<in> set ts" and "snd (Targets_Scan e' ts) = Some res" for res
  proof -
    let ?started = "filter (\<lambda>t. IPAddr t \<noteq> None) ts"
    from that(2) obtain lock where
      c: "collectScans e' lock ?started [] = Some (Resolved res)"
      and u: "Unresolved res = filter (\<lambda>t. IPAddr t = None) ts"
      by (auto simp: Targets_Scan_def Let_def dispatchTargets_filter split: option.splits)
    have "\<forall>r \<in> set (Resolved res). IPAddr (ResultTarget r) \<noteq> None"
      using collectScans_resolved [OF c] by simp
    then show ?thesis
      using u that(1) assms(3) by auto
  qed
  show ?thesis
    using built routed assms(3) by (auto simp: dispatchTargets_filter)
qed

theorem unresolved_target_witness:
  "AsyncNewTarget world ''no-such-host.example'' [tcp80] False
     = ([Acquire 4, Invoke MResolve, Release 3, SendTarget lostHost], Inr lostHost)
   \<and> IPAddr lostHost = None
   \<and> Location lostHost = UnknownLoc \<and> MACAddr lostHost = None
   \<and> Status lostHost = OfflineFiltered
   \<and> lostHost \<in> set (fst (dispatchTargets [lostHost, host7] ([], [])))
   \<and> lostHost \<notin> set (snd (dispatchTargets [lostHost, host7] ([], [])))
   \<and> (\<exists>res. snd (Targets_Scan world [lostHost, host7]) = Some res
            \<and> lostHost \<in> set (Unresolved res)
            \<and> lostHost \<notin> ResultTarget ` set (Resolved res))"
proof -
  have h1: "AsyncNewTarget = NewTarget \<or> AsyncNewTarget = AsyncNewTarget"
    by simp
  have h2: "AsyncNewTarget world ''no-such-host.example'' [tcp80] False
     = ([Acquire 4, Invoke MResolve, Release 3, SendTarget lostHost], Inr lostHost)"
    by (simp add: AsyncNewTarget_def NewTarget_def Resolve_def world_def lostHost_def)
  have h3: "IPAddr lostHost = None"
    by (simp add: lostHost_def)
  have h4: "lostHost \<in> set [lostHost, host7]"
    by simp
  note c = unresolved_target [where construct = AsyncNewTarget and ts = "[lostHost, host7]"
      and e' = world, OF h1 h2 h3]
  have loc: "Location lostHost = UnknownLoc \<and> MACAddr lostHost = None"
    using c by blast
  have d: "lostHost \<in> set (fst (dispatchTargets [lostHost, host7] ([], [])))
         \<and> lostHost \<notin> set (snd (dispatchTargets [lostHost, host7] ([], [])))"
    using c h4 by blast
  have r: "lostHost \<in> set (Unresolved res) \<and> lostHost \<notin> ResultTarget ` set (Resolved res)"
    if "snd (Targets_Scan world [lostHost, host7]) = Some res" for res
    using c h4 that by blast
  have st: "Status lostHost = OfflineFiltered"
    by (simp add: lostHost_def)
  show ?thesis
    using h2 h3 loc st d r [OF Targets_Scan_world] Targets_Scan_world by blast
qed

section \<open>Properties of the Address Expander\<close>

subsection \<open>Dash ranges\<close>

lemma dash_octets:
  "fillOctets 0 (Split ''10.0.1-3.5'' (CHR ''.'')) (replicate 4 []) = Inr [[10], [0], [1, 2, 3], [5]]"
  by code_simp

lemma dash_targets:
  "octetsToTargets [[10], [0], [1, 2, 3], [5]] = [''10.0.1.5'', ''10.0.2.5'', ''10.0.3.5'']"
  by code_simp

lemma dash_contains: "Contains ''10.0.1-3.5'' ''-''"
  by code_simp

lemma dash_no_comma: "Split ''10.0.1-3.5'' (CHR '','') = [''10.0.1-3.5'']"
  by code_simp

text \<open>
  C6. For the token 10.0.1-3.5, once \<open>net.ParseCIDR\<close> has refused it and
  \<open>helper.ValidateIPOrRange\<close> has accepted it, the expander starts exactly the three
  units 10.0.1.5, 10.0.2.5 and 10.0.3.5, in this order: one per integer of the inclusive
  range 1-3. \<open>octetsToTargets\<close> runs through the product of the four candidate lists
  with the first octet outermost and the fourth innermost.
\<close>

theorem dash_range_expansion:
  assumes "ParseCIDR e ''10.0.1-3.5'' = None" and "ValidateIPOrRange e ''10.0.1-3.5''"
  shows "expandHostArg e ''10.0.1-3.5'' = Some (Inr [''10.0.1.5'', ''10.0.2.5'', ''10.0.3.5''])
       \<and> spawnHosts e (Split ''10.0.1-3.5'' (CHR '','')) []
           = Some (Inr [''10.0.1.5'', ''10.0.2.5'', ''10.0.3.5''])
       \<and> octetsToTargets [os0, os1, os2, os3]
           = [Itoa oc0 @ ''.'' @ Itoa oc1 @ ''.'' @ Itoa oc2 @ ''.'' @ Itoa oc3.
                oc0 \<leftarrow> os0, oc1 \<leftarrow> os1, oc2 \<leftarrow> os2, oc3 \<leftarrow> os3]"
proof -
  have x: "expandHostArg e ''10.0.1-3.5'' = Some (Inr [''10.0.1.5'', ''10.0.2.5'', ''10.0.3.5''])"
    unfolding expandHostArg_def using assms
    by (simp only: option.case if_True dash_contains dash_octets sum.case dash_targets)
  have s: "spawnHosts e (Split ''10.0.1-3.5'' (CHR '','')) []
           = Some (Inr [''10.0.1.5'', ''10.0.2.5'', ''10.0.3.5''])"
    unfolding dash_no_comma by (simp add: x)
  have o: "octetsToTargets [os0, os1, os2, os3]
           = [Itoa oc0 @ ''.'' @ Itoa oc1 @ ''.'' @ Itoa oc2 @ ''.'' @ Itoa oc3.
                oc0 \<leftarrow> os0, oc1 \<leftarrow> os1, oc2 \<leftarrow> os2, oc3 \<leftarrow> os3]"
    by (simp add: octetsToTargets_def)
  show ?thesis
    using x s o by simp
qed

theorem dash_range_expansion_witness:
  "expandHostArg rangeWorld ''10.0.1-3.5'' = Some (Inr [''10.0.1.5'', ''10.0.2.5'', ''10.0.3.5''])
   \<and> spawnHosts rangeWorld (Split ''10.0.1-3.5'' (CHR '','')) []
       = Some (Inr [''10.0.1.5'', ''10.0.2.5'', ''10.0.3.5''])"
proof -
  have h1: "ParseCIDR rangeWorld ''10.0.1-3.5'' = None"
    by (simp add: rangeWorld_def world_def)
  have h2: "ValidateIPOrRange rangeWorld ''10.0.1-3.5''"
    by (simp add: rangeWorld_def world_def)
  show ?thesis
    using dash_range_expansion [OF h1 h2] by simp
qed

subsection \<open>CIDR blocks\<close>

lemma cidrLoop_slash_zero:
  "cidrLoop netIP 0 ip spawned = None"
proof (cases "cidrLoop netIP 0 ip spawned")
  case None
  then show ?thesis .
next
  case (Some y)
  have "m \<noteq> 0" if "cidrLoop netIP m ip spawned = Some y" for m
    by (rule cidrLoop.raw_induct [where P = "\<lambda>netIP m ip spawned y. m \<noteq> 0", OF _ that])
       (auto simp: IPNet_Contains_def split: if_splits)
  then show ?thesis
    using Some by blast
qed

lemma CIDRMask_zero: "CIDRMask 0 = 0"
proof -
  have "mask 32 = (- 1 :: 32 word)"
    using mask_full [where 'a = 32] by simp
  then show ?thesis
    by (simp add: CIDRMask_def)
qed

lemma expandHostArg_slash_zero:
  "ParseCIDR e hostArg = Some (ip, 0) \<Longrightarrow> expandHostArg e hostArg = None"
  by (simp add: expandHostArg_def CIDRMask_zero cidrLoop_slash_zero)

lemma slash_zero_no_comma: "Split ''0.0.0.0/0'' (CHR '','') = [''0.0.0.0/0'']"
  by code_simp

text \<open>
  C5, at the block 0.0.0.0/0. The mask of a /0 block is 0.0.0.0, so the block contains
  every address: it contains 255.255.255.255, the next address is 0.0.0.0, and the
  block contains that too. The loop of the expander has no other exit, so it never
  ends, and \<open>ParseHostString\<close> never returns; the expander does not stop after the
  2^32 addresses of the block.
\<close>

theorem cidr_slash_zero_never_ends:
  "ParseCIDR cidrWorld ''0.0.0.0/0'' = Some (0, 0)
   \<and> expandHostArg cidrWorld ''0.0.0.0/0'' = None
   \<and> snd (ParseHostString cidrWorld ''0.0.0.0/0'' [tcp80] False) = None
   \<and> IPNet_Contains 0 (CIDRMask 0) 4294967295
   \<and> IncIp 4294967295 = 0
   \<and> IPNet_Contains 0 (CIDRMask 0) 0"
proof -
  have p: "ParseCIDR cidrWorld ''0.0.0.0/0'' = Some (0, 0)"
    by (simp add: cidrWorld_def world_def)
  have x: "expandHostArg cidrWorld ''0.0.0.0/0'' = None"
    using p by (rule expandHostArg_slash_zero)
  have h: "snd (ParseHostString cidrWorld ''0.0.0.0/0'' [tcp80] False) = None"
    unfolding ParseHostString_def Let_def slash_zero_no_comma by (simp add: x)
  show ?thesis
    using p x h by (simp add: IPNet_Contains_def IncIp_def CIDRMask_zero)
qed

lemma and_not_mask_push_drop:
  "x AND NOT (mask k) = push_bit k (drop_bit k x)" for x :: "32 word"
  by (rule bit_eqI) (auto simp: bit_simps)

lemma unat_and_not_mask:
  "unat (x AND NOT (mask k)) = (unat x div 2 ^ k) * 2 ^ k" for x :: "32 word"
proof -
  have le: "(unat x div 2 ^ k) * 2 ^ k \<le> unat x"
    by simp
  have "unat x < 2 ^ 32"
    using unsigned_less [of x] by simp
  then have lt: "(unat x div 2 ^ k) * 2 ^ k < 2 ^ 32"
    using le by linarith
  have "unat (push_bit k (drop_bit k x)) = take_bit 32 (push_bit k (unat (drop_bit k x)))"
    by (simp add: unsigned_push_bit_eq)
  also have "\<dots> = take_bit 32 ((unat x div 2 ^ k) * 2 ^ k)"
    unfolding unat_drop_bit_eq by (simp add: drop_bit_eq_div push_bit_eq_mult mult.commute)
  also have "\<dots> = (unat x div 2 ^ k) * 2 ^ k"
    using lt by (simp add: take_bit_nat_eq_self_iff)
  finally show ?thesis
    by (simp add: and_not_mask_push_drop)
qed

lemma Contains_div:
  "IPNet_Contains netIP (CIDRMask n) ip = (unat netIP div 2 ^ (32 - n) = unat ip div 2 ^ (32 - n))"
proof -
  have "(netIP AND CIDRMask n = ip AND CIDRMask n)
        = (unat (netIP AND CIDRMask n) = unat (ip AND CIDRMask n))"
    by (rule word_unat_eq_iff)
  then show ?thesis
    by (simp add: IPNet_Contains_def CIDRMask_def unat_and_not_mask)
qed

lemma block_top:
  fixes x n :: nat
  assumes "n \<le> 32" and "x < 2 ^ 32"
  shows "(x div 2 ^ (32 - n)) * 2 ^ (32 - n) + 2 ^ (32 - n) \<le> 2 ^ 32"
proof -
  let ?k = "32 - n"
  have split: "(2::nat) ^ 32 = 2 ^ n * 2 ^ ?k"
    using assms(1) by (simp flip: power_add)
  have "x div 2 ^ ?k < 2 ^ n"
    using assms(2) split by (simp add: less_mult_imp_div_less)
  then have "x div 2 ^ ?k + 1 \<le> 2 ^ n"
    by simp
  then have "(x div 2 ^ ?k + 1) * 2 ^ ?k \<le> 2 ^ n * 2 ^ ?k"
    by (rule mult_le_mono1)
  then show ?thesis
    using split by (simp add: algebra_simps)
qed

lemma unat_block_address:
  fixes ip :: "32 word"
  assumes "n \<le> 32" and "j < 2 ^ (32 - n)"
  shows "unat ((ip AND CIDRMask n) + of_nat j) = (unat ip div 2 ^ (32 - n)) * 2 ^ (32 - n) + j"
proof -
  let ?k = "32 - n"
  let ?B = "(unat ip div 2 ^ ?k) * 2 ^ ?k"
  have x: "unat ip < 2 ^ 32"
    using unsigned_less [of ip] by simp
  have top: "?B + 2 ^ ?k \<le> 2 ^ 32"
    using block_top [OF assms(1) x] .
  have B: "unat (ip AND CIDRMask n) = ?B"
    by (simp add: CIDRMask_def unat_and_not_mask)
  have j32: "j < 2 ^ 32"
    using assms(2) top by linarith
  have j: "unat (of_nat j :: 32 word) = j"
    using j32 by (simp add: unat_of_nat)
  have "unat (ip AND CIDRMask n) + unat (of_nat j :: 32 word) < 2 ^ LENGTH(32)"
    using B j assms(2) top by simp
  then have "unat ((ip AND CIDRMask n) + of_nat j) = unat (ip AND CIDRMask n) + unat (of_nat j :: 32 word)"
    by (rule iffD1 [OF unat_add_lem])
  then show ?thesis
    using B j by simp
qed

lemma block_contains:
  fixes ip :: "32 word"
  assumes "n \<le> 32" and "j < 2 ^ (32 - n)"
  shows "IPNet_Contains (ip AND CIDRMask n) (CIDRMask n) ((ip AND CIDRMask n) + of_nat j)"
proof -
  have "unat ((ip AND CIDRMask n) + of_nat 0) = (unat ip div 2 ^ (32 - n)) * 2 ^ (32 - n) + 0"
    using assms(1) by (intro unat_block_address) simp_all
  then have b: "unat (ip AND CIDRMask n) div 2 ^ (32 - n) = unat ip div 2 ^ (32 - n)"
    by simp
  have "unat ((ip AND CIDRMask n) + of_nat j) div 2 ^ (32 - n) = unat ip div 2 ^ (32 - n)"
    using assms by (simp add: unat_block_address)
  then show ?thesis
    using b by (simp add: Contains_div)
qed

lemma block_end:
  fixes ip :: "32 word"
  assumes "1 \<le> n" and "n \<le> 32"
  shows "\<not> IPNet_Contains (ip AND CIDRMask n) (CIDRMask n)
           ((ip AND CIDRMask n) + of_nat (2 ^ (32 - n)))"
proof -
  let ?k = "32 - n"
  let ?q = "unat ip div 2 ^ ?k"
  let ?B = "?q * 2 ^ ?k"
  let ?base = "ip AND CIDRMask n"
  have x: "unat ip < 2 ^ 32"
    using unsigned_less [of ip] by simp
  have top: "?B + 2 ^ ?k \<le> 2 ^ 32"
    using block_top [OF assms(2) x] .
  have B: "unat ?base = ?B"
    by (simp add: CIDRMask_def unat_and_not_mask)
  have b: "unat ?base div 2 ^ ?k = ?q"
    using B by simp
  have kl: "?k < 32"
    using assms by simp
  then have k: "(2::nat) ^ ?k < 2 ^ 32"
    by (intro power_strict_increasing) simp_all
  have p: "unat (of_nat (2 ^ ?k) :: 32 word) = 2 ^ ?k"
    unfolding unat_of_nat using k by simp
  have "unat (?base + of_nat (2 ^ ?k)) div 2 ^ ?k \<noteq> ?q"
  proof (cases "?B + 2 ^ ?k < 2 ^ 32")
    case True
    then have "unat (?base + of_nat (2 ^ ?k)) = ?B + 2 ^ ?k"
      using B p by (simp add: unat_plus_if')
    then show ?thesis
      by simp
  next
    case False
    then have full: "?B + 2 ^ ?k = 2 ^ 32"
      using top by linarith
    then have "unat (?base + of_nat (2 ^ ?k)) = 0"
      using B p by (simp add: unat_plus_if')
    moreover have "?q \<noteq> 0"
    proof
      assume "?q = 0"
      then have "(2::nat) ^ ?k = 2 ^ 32"
        using full by simp
      then show False
        using k by simp
    qed
    ultimately show ?thesis
      by simp
  qed
  then show ?thesis
    using b by (simp add: Contains_div)
qed

lemma cidrLoop_block:
  fixes ip :: "32 word"
  assumes "1 \<le> n" and "n \<le> 32" and "j \<le> 2 ^ (32 - n)"
  shows "cidrLoop (ip AND CIDRMask n) (CIDRMask n) ((ip AND CIDRMask n) + of_nat j) spawned
       = Some (spawned @ map (\<lambda>i. IPv4_String ((ip AND CIDRMask n) + of_nat i)) [j..<2 ^ (32 - n)])"
  using assms(3)
proof (induction "2 ^ (32 - n) - j" arbitrary: j spawned)
  case 0
  then have j: "j = 2 ^ (32 - n)"
    by simp
  show ?case
    unfolding j using block_end [OF assms(1,2), of ip]
    by (subst cidrLoop.simps) simp
next
  case (Suc d)
  then have lt: "j < 2 ^ (32 - n)" and d: "d = 2 ^ (32 - n) - Suc j" and le: "Suc j \<le> 2 ^ (32 - n)"
    by simp_all
  have next_ip: "IncIp ((ip AND CIDRMask n) + of_nat j) = (ip AND CIDRMask n) + of_nat (Suc j)"
    by (simp add: IncIp_def)
  have "cidrLoop (ip AND CIDRMask n) (CIDRMask n) ((ip AND CIDRMask n) + of_nat j) spawned
      = cidrLoop (ip AND CIDRMask n) (CIDRMask n) ((ip AND CIDRMask n) + of_nat (Suc j))
          (spawned @ [IPv4_String ((ip AND CIDRMask n) + of_nat j)])"
    using block_contains [OF assms(2) lt, of ip]
    by (subst cidrLoop.simps) (simp only: if_True next_ip)
  also have "\<dots> = Some ((spawned @ [IPv4_String ((ip AND CIDRMask n) + of_nat j)])
        @ map (\<lambda>i. IPv4_String ((ip AND CIDRMask n) + of_nat i)) [Suc j..<2 ^ (32 - n)])"
    by (rule Suc.hyps(1) [OF d le])
  also have "\<dots> = Some (spawned
        @ map (\<lambda>i. IPv4_String ((ip AND CIDRMask n) + of_nat i)) [j..<2 ^ (32 - n)])"
    using lt by (simp add: upt_conv_Cons)
  finally show ?case .
qed

text \<open>
  For every prefix length from 1 to 32 the loop does end, with one unit per address of
  the block, from the network address upwards.
\<close>

theorem cidr_expansion:
  fixes ip :: "32 word"
  assumes "ParseCIDR e hostArg = Some (ip, n)" and "1 \<le> n" and "n \<le> 32"
  shows "expandHostArg e hostArg
       = Some (Inr (map (\<lambda>i. IPv4_String ((ip AND CIDRMask n) + of_nat i)) [0..<2 ^ (32 - n)]))"
  using cidrLoop_block [OF assms(2,3), of 0 ip "[]"] assms(1)
  by (simp add: expandHostArg_def)

lemma broadcast_address:
  fixes ip :: "32 word"
  shows "(ip AND CIDRMask n) + of_nat (2 ^ (32 - n) - 1) = ip OR NOT (CIDRMask n)"
proof -
  let ?k = "32 - n"
  have m: "(of_nat (2 ^ ?k - 1) :: 32 word) = mask ?k"
    by (simp add: mask_eq_exp_minus_1)
  have z: "(ip AND NOT (mask ?k)) AND mask ?k = 0"
    by (rule bit_eqI) (auto simp: bit_simps)
  have o: "(ip AND NOT (mask ?k)) OR mask ?k = ip OR mask ?k"
    by (rule bit_eqI) (auto simp: bit_simps)
  have "(ip AND CIDRMask n) + of_nat (2 ^ ?k - 1) = (ip AND NOT (mask ?k)) + mask ?k"
    unfolding m by (simp add: CIDRMask_def)
  also have "\<dots> = (ip AND NOT (mask ?k)) OR mask ?k"
    by (rule disjunctive_add_eq_or [OF z])
  also have "\<dots> = ip OR NOT (CIDRMask n)"
    using o by (simp add: CIDRMask_def)
  finally show ?thesis .
qed

text \<open>
  These are \<open>2 ^ (32 - n)\<close> addresses, distinct, each contained in the block, the
  network address and the broadcast address among them.
\<close>

lemma cidr_block_addresses:
  fixes ip :: "32 word"
  assumes "n \<le> 32"
  defines "block \<equiv> map (\<lambda>i. (ip AND CIDRMask n) + of_nat i) [0..<2 ^ (32 - n)]"
  shows "length block = 2 ^ (32 - n)
       \<and> distinct block
       \<and> (\<forall>a \<in> set block. IPNet_Contains (ip AND CIDRMask n) (CIDRMask n) a)
       \<and> (ip AND CIDRMask n) \<in> set block
       \<and> (ip OR NOT (CIDRMask n)) \<in> set block"
proof -
  have inj: "inj_on (\<lambda>i. (ip AND CIDRMask n) + of_nat i) {0..<2 ^ (32 - n)}"
  proof (rule inj_onI)
    fix i j :: nat
    assume i: "i \<in> {0..<2 ^ (32 - n)}" and j: "j \<in> {0..<2 ^ (32 - n)}"
      and eq: "(ip AND CIDRMask n) + of_nat i = (ip AND CIDRMask n) + of_nat j"
    have "unat ((ip AND CIDRMask n) + of_nat i) = unat ((ip AND CIDRMask n) + of_nat j)"
      using eq by simp
    then show "i = j"
      using i j assms(1) by (simp add: unat_block_address)
  qed
  have d: "distinct block"
    unfolding block_def using inj by (simp add: distinct_map)
  have c: "\<forall>a \<in> set block. IPNet_Contains (ip AND CIDRMask n) (CIDRMask n) a"
    unfolding block_def using block_contains [OF assms(1)] by auto
  have net: "(ip AND CIDRMask n) \<in> set block"
  proof -
    have "(ip AND CIDRMask n) + of_nat 0 \<in> set block"
      unfolding block_def set_map by (rule imageI) simp
    then show ?thesis by simp
  qed
  have bc: "(ip OR NOT (CIDRMask n)) \<in> set block"
  proof -
    have "(ip AND CIDRMask n) + of_nat (2 ^ (32 - n) - 1) \<in> set block"
      unfolding block_def set_map by (rule imageI) simp
    then show ?thesis
      unfolding broadcast_address .
  qed
  show ?thesis
    using d c net bc by (simp add: block_def)
qed

section \<open>Properties of Resolve\<close>

lemma Resolve_hostname:
  assumes "\<not> ValidateIPOrRange e (InitialTarget t)"
    and "LookupIP e (InitialTarget t) = Inr (ip # ips)"
  shows "Resolve e t =
     (case LookupAddr e (string_of_bytes ip) of
        Inr [] \<Rightarrow> Inl IndexOutOfRange
      | Inr (h # _) \<Rightarrow> Inr (t\<lparr>IPAddr := Some ip, HostName := h\<rparr>)
      | Inl err \<Rightarrow> Inr (t\<lparr>IPAddr := Some ip, HostName := InitialTarget t\<rparr>))"
  using assms by (simp add: Resolve_def split: sum.splits list.splits)

text \<open>
  C8, in a world where www.example.org resolves to 10.0.0.7 and 10.0.0.7 resolves back
  to host7.example.org. \<open>Resolve\<close> asks for the names of \<open>string(t.IPAddr)\<close>, the four
  bytes 10, 0, 0, 7 as a string, not for those of \<open>t.IPAddr.String()\<close>, which is
  "10.0.0.7". The lookup of these four bytes fails, and the Target keeps the name it
  was given, although the address has a name.
\<close>

theorem Resolve_reverse_lookup_raw_bytes:
  "Resolve dnsWorld wwwTarget
     = Inr (wwwTarget\<lparr>IPAddr := Some [10, 0, 0, 7], HostName := ''www.example.org''\<rparr>)
   \<and> IP_String dnsWorld [10, 0, 0, 7] = ''10.0.0.7''
   \<and> LookupAddr dnsWorld (IP_String dnsWorld [10, 0, 0, 7]) = Inr [''host7.example.org.'']
   \<and> length (string_of_bytes [10, 0, 0, 7]) = 4
   \<and> LookupAddr dnsWorld (string_of_bytes [10, 0, 0, 7])
       = Inl \<lparr>isOpError = False, Error = ''lookup: unrecognized address''\<rparr>"
proof -
  have v: "\<not> ValidateIPOrRange dnsWorld (InitialTarget wwwTarget)"
    by (simp add: dnsWorld_def world_def)
  have l: "LookupIP dnsWorld (InitialTarget wwwTarget) = Inr ([10, 0, 0, 7] # [])"
    by (simp add: dnsWorld_def world_def wwwTarget_def)
  have n: "length (string_of_bytes [10, 0, 0, 7]) = 4"
    by (simp add: string_of_bytes_def)
  have ne: "string_of_bytes [10, 0, 0, 7] \<noteq> ''10.0.0.7''"
    using n by auto
  have r: "LookupAddr dnsWorld (string_of_bytes [10, 0, 0, 7])
       = Inl \<lparr>isOpError = False, Error = ''lookup: unrecognized address''\<rparr>"
    using ne by (simp add: dnsWorld_def world_def)
  have s: "IP_String dnsWorld [10, 0, 0, 7] = ''10.0.0.7''"
    by code_simp
  have a: "LookupAddr dnsWorld ''10.0.0.7'' = Inr [''host7.example.org.'']"
    by (simp add: dnsWorld_def world_def)
  show ?thesis
    using Resolve_hostname [OF v l] n r s a by (simp add: wwwTarget_def)
qed

end
